theory Spec2Isabelle
  imports Main "HOL-Library.Char_ord" "HOL-Library.List_Lexorder"
begin

section \<open>Evaluation positions and their order (servers/cu/src/domain/client/ao-process.js)\<close>

text \<open>
  The objects handed to \<open>isLaterThan\<close> are read at two properties only, \<open>timestamp\<close> and
  \<open>cron\<close>. A property that an object does not have reads as \<open>undefined\<close>, which is
  \<open>None\<close> here. The two timestamps of one comparison are values of one JavaScript type
  (numbers, or strings as the \<open>Evaluation\<close> typedef and the Checkpoint tags have them), so
  \<open>===\<close> is equality and \<open>>\<close> is the order of that type: the order of the numbers, or
  the order of strings by code units, which is the lexicographic order of lists.
  A comparison with \<open>undefined\<close> by \<open>>\<close> is false.
\<close>

record 't position =
  timestamp :: "'t option"
  ordinate :: "string option"
  cron :: "string option"

text \<open>\<open>x || ''\<close>: \<open>undefined\<close> and the empty string are both falsy.\<close>

definition orEmpty :: "string option \<Rightarrow> string" where
  "orEmpty c = (case c of None \<Rightarrow> [] | Some s \<Rightarrow> s)"

text \<open>\<open>a > b\<close> on two values of one type, either of which may be \<open>undefined\<close>.\<close>

definition js_gt :: "'t::linorder option \<Rightarrow> 't option \<Rightarrow> bool" where
  "js_gt a b = (case a of None \<Rightarrow> False
                | Some x \<Rightarrow> (case b of None \<Rightarrow> False | Some y \<Rightarrow> y < x))"

text \<open>
  \<^verbatim>\<open>
  function isLaterThan (eval1, eval2) {
    if (eval2.timestamp === eval1.timestamp) return (eval2.cron || '') > (eval1.cron || '')
    return eval2.timestamp > eval1.timestamp
  }
  \<close>
\<close>

definition isLaterThan ::
  "('t::linorder, 'a) position_scheme \<Rightarrow> ('t, 'b) position_scheme \<Rightarrow> bool" where
  "isLaterThan eval1 eval2 =
     (if timestamp eval2 = timestamp eval1
      then orEmpty (cron eval1) < orEmpty (cron eval2)
      else js_gt (timestamp eval2) (timestamp eval1))"

text \<open>\<open>isEarlierThan = complement(isLaterThan)\<close>\<close>

definition isEarlierThan ::
  "('t::linorder, 'a) position_scheme \<Rightarrow> ('t, 'b) position_scheme \<Rightarrow> bool" where
  "isEarlierThan eval1 eval2 = (\<not> isLaterThan eval1 eval2)"

section \<open>The process memory cache (saveLatestProcessMemoryWith)\<close>

text \<open>
  The cache maps a process id to an entry \<open>{ Memory, evaluation }\<close>. The entry holds the
  gzipped memory, the evaluation holds the position and the identifiers of the evaluation.
  Only \<open>get\<close> and \<open>set\<close> on one key are used here.
\<close>

record 't evaluation = "'t position" +
  processId :: string
  moduleId :: string
  epoch :: string
  nonce :: string
  blockHeight :: nat
  encoding :: "string option"

record ('t, 'z) cache_entry =
  Memory :: 'z
  evaluation :: "'t evaluation"

type_synonym ('t, 'z) cache = "string \<Rightarrow> ('t, 'z) cache_entry option"

text \<open>The argument of \<open>saveLatestProcessMemory\<close>.\<close>

record ('t, 'm) save_args = "'t position" +
  arg_processId :: string
  arg_moduleId :: string
  arg_messageId :: string
  arg_epoch :: string
  arg_nonce :: string
  arg_blockHeight :: nat
  arg_Memory :: 'm

text \<open>
  \<open>isLaterThan(cached, ...)\<close> is handed the entry itself. The entry is the object
  \<open>{ Memory, evaluation }\<close>: it has no property \<open>timestamp\<close>, \<open>ordinate\<close> or
  \<open>cron\<close> of its own, so each of them reads as \<open>undefined\<close>.
\<close>

definition entry_properties :: "('t, 'z) cache_entry \<Rightarrow> 't position" where
  "entry_properties cached = \<lparr>timestamp = None, ordinate = None, cron = None\<rparr>"

definition evaluation_of_args :: "('t, 'm) save_args \<Rightarrow> 't evaluation" where
  "evaluation_of_args a =
     \<lparr>timestamp = timestamp a, ordinate = ordinate a, cron = cron a,
      processId = arg_processId a, moduleId = arg_moduleId a, epoch = arg_epoch a,
      nonce = arg_nonce a, blockHeight = arg_blockHeight a, encoding = Some ''gzip''\<rparr>"

text \<open>
  \<^verbatim>\<open>
  const cached = cache.get(processId)
  if (cached && isLaterThan(cached, { timestamp, ordinate, cron })) return
  cache.set(processId, {
    Memory: await gzipP(Memory),
    evaluation: { processId, moduleId, timestamp, epoch, nonce, blockHeight, ordinate,
                  encoding: 'gzip', cron }
  })
  \<close>
  \<open>gzipP\<close> is a parameter; \<open>Inl\<close> is its rejection, which rejects the call before
  \<open>cache.set\<close> runs. The result is the cache after the call.
\<close>

definition saveLatestProcessMemory ::
  "('m \<Rightarrow> 'e + 'z) \<Rightarrow> ('t::linorder, 'z) cache \<Rightarrow> ('t, 'm) save_args \<Rightarrow> 'e + ('t, 'z) cache" where
  "saveLatestProcessMemory gzipP cache a =
     (let overwrite =
        (case gzipP (arg_Memory a) of
           Inl err \<Rightarrow> Inl err
         | Inr z \<Rightarrow> Inr (cache(arg_processId a \<mapsto>
                      \<lparr>Memory = z, evaluation = evaluation_of_args a\<rparr>)))
      in case cache (arg_processId a) of
           None \<Rightarrow> overwrite
         | Some cached \<Rightarrow>
             if isLaterThan (entry_properties cached)
                  \<lparr>timestamp = timestamp a, ordinate = ordinate a, cron = cron a\<rparr>
             then Inr cache
             else overwrite)"

text \<open>Concrete data for the evaluations below: a process \<open>p\<close> evaluated at two timestamps.\<close>

definition args_at :: "nat \<Rightarrow> (nat, string) save_args" where
  "args_at t =
     \<lparr>timestamp = Some t, ordinate = Some ''1'', cron = None,
      arg_processId = ''p'', arg_moduleId = ''m'', arg_messageId = ''msg'',
      arg_epoch = ''0'', arg_nonce = ''1'', arg_blockHeight = 1, arg_Memory = ''mem''\<rparr>"

definition cache_at :: "nat \<Rightarrow> (nat, string) cache" where
  "cache_at t = Map.empty(''p'' \<mapsto> \<lparr>Memory = ''zipped'', evaluation = evaluation_of_args (args_at t)\<rparr>)"

section \<open>Sort keys and the bounds of a request (the Warp sequencer client, loadInteractionsWith)\<close>

text \<open>
  A JavaScript string is the list of its code units; \<open>string\<close> covers the code units
  below 256. \<open>s.split(",")\<close> always yields at least one field: the empty string yields
  one empty field. The branch for an empty result is never taken; it is there because a
  list has no first element to name otherwise.
\<close>

fun js_split :: "'a \<Rightarrow> 'a list \<Rightarrow> 'a list list" where
  "js_split sep [] = [[]]"
| "js_split sep (x # xs) =
     (case js_split sep xs of
        [] \<Rightarrow> [[x]]
      | f # fs \<Rightarrow> if x = sep then [] # f # fs else (x # f) # fs)"

fun js_join :: "'a \<Rightarrow> 'a list list \<Rightarrow> 'a list" where
  "js_join sep [] = []"
| "js_join sep [f] = f"
| "js_join sep (f # g # fs) = f @ sep # js_join sep (g # fs)"

text \<open>\<open>s.padStart(n, c)\<close> for a pad string of one character: never shortens \<open>s\<close>.\<close>

definition padStart :: "nat \<Rightarrow> 'a \<Rightarrow> 'a list \<Rightarrow> 'a list" where
  "padStart n c s = replicate (n - length s) c @ s"

text \<open>
  \<^verbatim>\<open>
  const padBlockHeight = (sortKey) => {
    if (!sortKey) return sortKey;
    const [height, ...rest] = String(sortKey).split(",");
    return [height.padStart(12, "0"), ...rest].join(",");
  };
  \<close>
  The bound is a string or \<open>undefined\<close> (\<open>None\<close>); both \<open>undefined\<close> and the empty
  string are falsy and are returned as they are.
\<close>

definition padBlockHeight :: "string option \<Rightarrow> string option" where
  "padBlockHeight sortKey =
     (case sortKey of
        None \<Rightarrow> None
      | Some s \<Rightarrow>
          if s = [] then Some s
          else (case js_split CHR '','' s of
                  [] \<Rightarrow> None
                | height # rest \<Rightarrow> Some (js_join CHR '','' (padStart 12 CHR ''0'' height # rest))))"

text \<open>
  Numbers. \<open>parseInt\<close>, \<open>num + 1\<close> and \<open>String(num)\<close> are modelled on the integers
  of magnitude up to \<open>2 ^ 53\<close>, where the doubles of JavaScript are exact and
  \<open>String\<close> writes plain decimal digits. Beyond that range the code rounds (and
  \<open>String\<close> changes notation from \<open>1e21\<close> on) and the three definitions below are
  not a model of it: every statement that goes through them is either about a height
  below \<open>2 ^ 53\<close> or an evaluation at such a height. A block height has at most 12
  digits.
\<close>

datatype jsnumber = NaN | Num int

definition isWhiteSpace :: "char \<Rightarrow> bool" where
  "isWhiteSpace c = (of_char c \<in> {9, 10, 11, 12, 13, 32, 160 :: nat})"

text \<open>The value of a character as a digit: \<open>0-9\<close>, then \<open>a-z\<close> or \<open>A-Z\<close> from ten on.\<close>

definition digitValue :: "char \<Rightarrow> nat option" where
  "digitValue c =
     (let n = of_char c :: nat
      in if 48 \<le> n \<and> n \<le> 57 then Some (n - 48)
         else if 97 \<le> n \<and> n \<le> 122 then Some (n - 87)
         else if 65 \<le> n \<and> n \<le> 90 then Some (n - 55)
         else None)"

definition isRadixDigit :: "nat \<Rightarrow> char \<Rightarrow> bool" where
  "isRadixDigit R c = (case digitValue c of None \<Rightarrow> False | Some d \<Rightarrow> d < R)"

definition radixValue :: "nat \<Rightarrow> string \<Rightarrow> nat" where
  "radixValue R ds =
     foldl (\<lambda>acc c. acc * R + (case digitValue c of None \<Rightarrow> 0 | Some d \<Rightarrow> d)) 0 ds"

text \<open>
  \<open>parseInt(string)\<close> with no radix: leading white space is skipped, a sign is read, the
  prefix \<open>0x\<close> or \<open>0X\<close> selects radix 16, and the longest run of digits is the value;
  no digit at all gives \<open>NaN\<close>.
\<close>

definition parseInt :: "string \<Rightarrow> jsnumber" where
  "parseInt inputString =
     (let S = dropWhile isWhiteSpace inputString;
          sign = (if take 1 S = ''-'' then - 1 else 1 :: int);
          S1 = (if take 1 S = ''+'' \<or> take 1 S = ''-'' then drop 1 S else S);
          hex = (take 2 S1 = ''0x'' \<or> take 2 S1 = ''0X'');
          R = (if hex then 16 else 10);
          S2 = (if hex then drop 2 S1 else S1);
          Z = takeWhile (isRadixDigit R) S2
      in if Z = [] then NaN else Num (sign * int (radixValue R Z)))"

definition digitChar :: "nat \<Rightarrow> char" where
  "digitChar d = ''0123456789'' ! d"

fun decimal :: "nat \<Rightarrow> string" where
  "decimal n = (if n < 10 then [digitChar n]
                else decimal (n div 10) @ [digitChar (n mod 10)])"

text \<open>\<open>String(x)\<close> of an integer or \<open>NaN\<close>, and \<open>x + 1\<close>.\<close>

definition String_of_number :: "jsnumber \<Rightarrow> string" where
  "String_of_number x =
     (case x of
        NaN \<Rightarrow> ''NaN''
      | Num n \<Rightarrow> if n < 0 then CHR ''-'' # decimal (nat (- n)) else decimal (nat n))"

definition plus_one :: "jsnumber \<Rightarrow> jsnumber" where
  "plus_one x = (case x of NaN \<Rightarrow> NaN | Num n \<Rightarrow> Num (n + 1))"

text \<open>
  The first function of the pipe on \<open>to\<close> in \<open>mapBounds\<close>:
  \<^verbatim>\<open>
  (sortKey) => {
    if (!sortKey) return sortKey;
    const parts = String(sortKey).split(",");
    if (parts.length > 1) return parts.join(",");
    const [height] = parts;
    if (!height) return height;
    const num = parseInt(height);
    return String(num + 1);
  }
  \<close>
\<close>

definition incrementHeight :: "string option \<Rightarrow> string option" where
  "incrementHeight sortKey =
     (case sortKey of
        None \<Rightarrow> None
      | Some s \<Rightarrow>
          if s = [] then Some s
          else (let parts = js_split CHR '','' s
                in if length parts > 1 then Some (js_join CHR '','' parts)
                   else (case parts of
                           [] \<Rightarrow> None
                         | height # _ \<Rightarrow>
                             if height = [] then Some height
                             else Some (String_of_number (plus_one (parseInt height))))))"

text \<open>\<open>to: pipe(..., padBlockHeight)\<close>: what the specification calls \<open>incrementBound\<close>.\<close>

definition mapBounds_to :: "string option \<Rightarrow> string option" where
  "mapBounds_to sortKey = padBlockHeight (incrementHeight sortKey)"

text \<open>The context \<open>{ id, from, to }\<close> and \<open>mapBounds = evolve({ from: ..., to: ... })\<close>.\<close>

record bounds =
  contractId :: string
  from_key :: "string option"
  to_key :: "string option"

definition mapBounds :: "bounds \<Rightarrow> bounds" where
  "mapBounds ctx =
     ctx\<lparr>from_key := padBlockHeight (from_key ctx), to_key := mapBounds_to (to_key ctx)\<rparr>"

section \<open>Hydration: the deep hash of forwarded messages (servers/cu/src/domain/lib/hydrateMessages.js)\<close>

text \<open>
  An element of the stream has a \<open>message\<close> and, once computed, a \<open>deepHash\<close>; its other
  properties (sort key, block, \<open>AoGlobal\<close>) are the extension of the record and are never
  touched here. An optional property that is absent is \<open>None\<close>.
\<close>

record 'd ao_message =
  msg_Id :: "string option"
  msg_Data :: 'd
  msg_Tags :: "(string \<times> string) list"
  msg_Target :: "string option"
  msg_Anchor :: "string option"
  Forwarded_By :: "string option"
  Forwarded_For :: "string option"

record 'd stream_item =
  message :: "'d ao_message"
  deepHash :: "string option"

text \<open>The argument \<open>{ data, tags, target, anchor }\<close> of \<open>calcDataItemDeepHash\<close>.\<close>

record 'd data_item_fields =
  di_data :: 'd
  di_tags :: "(string \<times> string) list"
  di_target :: "string option"
  di_anchor :: "string option"

text \<open>Truthiness of an optional string: \<open>undefined\<close> and \<open>''\<close> are falsy.\<close>

definition truthy :: "string option \<Rightarrow> bool" where
  "truthy v = (case v of None \<Rightarrow> False | Some s \<Rightarrow> s \<noteq> [])"

definition deepHashArgs :: "('d, 'x) stream_item_scheme \<Rightarrow> 'd data_item_fields" where
  "deepHashArgs cur =
     \<lparr>di_data = msg_Data (message cur), di_tags = msg_Tags (message cur),
      di_target = msg_Target (message cur), di_anchor = msg_Anchor (message cur)\<rparr>"

text \<open>
  \<^verbatim>\<open>
  async function * maybeMessageId (messages) {
    for await (const cur of messages) {
      if (!cur.message['Forwarded-By']) { yield cur; continue }
      try {
        cur.deepHash = await calcDataItemDeepHash({ ... })
        yield cur
      } catch (err) { logger(...); throw err }
    }
  }
  \<close>
  The generator is a function from the list of incoming elements to the list of elements
  it yields and the way it ends: \<open>None\<close> when the input is exhausted, \<open>Some err\<close> when
  it throws. \<open>calcDataItemDeepHash\<close>, which calls the bundling library, is a parameter;
  \<open>Inl\<close> is its rejection.
\<close>

fun maybeMessageId ::
  "('d data_item_fields \<Rightarrow> 'e + string) \<Rightarrow> ('d, 'x) stream_item_scheme list
     \<Rightarrow> ('d, 'x) stream_item_scheme list \<times> 'e option" where
  "maybeMessageId calcDataItemDeepHash [] = ([], None)"
| "maybeMessageId calcDataItemDeepHash (cur # messages) =
     (if \<not> truthy (Forwarded_By (message cur))
      then (case maybeMessageId calcDataItemDeepHash messages of
              (yielded, ending) \<Rightarrow> (cur # yielded, ending))
      else (case calcDataItemDeepHash (deepHashArgs cur) of
              Inl err \<Rightarrow> ([], Some err)
            | Inr h \<Rightarrow>
                (case maybeMessageId calcDataItemDeepHash messages of
                   (yielded, ending) \<Rightarrow> (cur\<lparr>deepHash := Some h\<rparr> # yielded, ending))))"

text \<open>Three elements for the evaluations: one not forwarded, and two forwarded ones.\<close>

definition plain_message :: "string ao_message" where
  "plain_message =
     \<lparr>msg_Id = Some ''id'', msg_Data = ''data'', msg_Tags = [], msg_Target = Some ''process'',
      msg_Anchor = None, Forwarded_By = None, Forwarded_For = None\<rparr>"

definition item_only_for :: "string stream_item" where
  "item_only_for =
     \<lparr>message = plain_message\<lparr>Forwarded_For := Some ''process-1''\<rparr>, deepHash = None\<rparr>"

definition item_only_by :: "string stream_item" where
  "item_only_by =
     \<lparr>message = plain_message\<lparr>Forwarded_By := Some ''mu-1''\<rparr>, deepHash = None\<rparr>"

definition item_ill_formed :: "string stream_item" where
  "item_ill_formed =
     \<lparr>message = plain_message\<lparr>msg_Data := ''bad'', Forwarded_By := Some ''mu-1''\<rparr>,
      deepHash = None\<rparr>"

text \<open>A hash function for the evaluations: it fails on the data \<open>bad\<close>.\<close>

definition sample_hash :: "string data_item_fields \<Rightarrow> string + string" where
  "sample_hash a = (if di_data a = ''bad'' then Inl ''ill-formed'' else Inr (''hash-of-'' @ di_data a))"

section \<open>Finding the memory of a process before a position (findProcessMemoryBeforeWith)\<close>

text \<open>
  A node of the gateway's answer, a Checkpoint transaction, and the Checkpoint read off
  its tags. Tag values are strings, so the timestamps compared here are strings.
\<close>

record gql_node =
  node_id :: string
  owner_address :: string
  node_tags :: "(string \<times> string) list"

record checkpoint = "string position" +
  ckpt_id :: string
  ckpt_blockHeight :: "string option"
  ckpt_encoding :: "string option"

definition pluckTagValue :: "string \<Rightarrow> (string \<times> string) list \<Rightarrow> string option" where
  "pluckTagValue name tags =
     (case find (\<lambda>t. fst t = name) tags of None \<Rightarrow> None | Some tag \<Rightarrow> Some (snd tag))"

definition toCheckpoint :: "gql_node \<Rightarrow> checkpoint" where
  "toCheckpoint node =
     \<lparr>timestamp = pluckTagValue ''Timestamp'' (node_tags node),
      ordinate = pluckTagValue ''Nonce'' (node_tags node),
      cron = pluckTagValue ''Cron-Interval'' (node_tags node),
      ckpt_id = node_id node,
      ckpt_blockHeight = pluckTagValue ''Block-Height'' (node_tags node),
      ckpt_encoding = pluckTagValue ''Content-Encoding'' (node_tags node)\<rparr>"

text \<open>
  The request \<open>{ processId, timestamp, ordinate, cron }\<close>. Every property may be
  \<open>undefined\<close>: a rejection that carries an error instead of the request is destructured
  all the same, and then each of the four reads as \<open>undefined\<close>.
\<close>

record request = "string position" +
  req_processId :: "string option"

definition request_position :: "request \<Rightarrow> string position" where
  "request_position r = \<lparr>timestamp = timestamp r, ordinate = ordinate r, cron = cron r\<rparr>"

text \<open>
  The reducer of \<open>determineLatestCheckpointBefore\<close>, folded over the Checkpoints of the
  edges from \<open>undefined\<close>:
  \<^verbatim>\<open>
  (latest, checkpoint) => {
    if (!latest) return checkpoint
    if (isLaterThan({ timestamp, ordinate, cron }, checkpoint)) return latest
    if (isEarlierThan(latest, checkpoint)) return latest
    return checkpoint
  }
  \<close>
\<close>

definition latestCheckpointReducer ::
  "string position \<Rightarrow> checkpoint option \<Rightarrow> checkpoint \<Rightarrow> checkpoint option" where
  "latestCheckpointReducer wanted latest checkpoint =
     (case latest of
        None \<Rightarrow> Some checkpoint
      | Some l \<Rightarrow>
          if isLaterThan wanted checkpoint then Some l
          else if isEarlierThan l checkpoint then Some l
          else Some checkpoint)"

definition determineLatestCheckpointBefore :: "request \<Rightarrow> gql_node list \<Rightarrow> checkpoint option" where
  "determineLatestCheckpointBefore r edges =
     foldl (latestCheckpointReducer (request_position r)) None (map toCheckpoint edges)"

text \<open>
  What the call resolves to: \<open>{ Memory, timestamp, blockHeight, cron, ordinate }\<close>.
  \<open>Memory\<close> is \<open>null\<close> (\<open>None\<close>) on a cold start. The block height is the number of the
  cached evaluation or the string of the Checkpoint's tag.
\<close>

datatype height = HeightNumber nat | HeightString string

record 'b process_memory = "string position" +
  found_Memory :: "'b option"
  found_blockHeight :: "height option"

text \<open>
  What a step rejects with: the request, an error of a dependency, or the error that
  \<open>decodeData\<close> throws for an encoding other than gzip.
\<close>

datatype 'e rejection = RejectedRequest request | RejectedError 'e | OnlyGzipSupported

definition rejected_fields :: "'e rejection \<Rightarrow> request" where
  "rejected_fields rej =
     (case rej of
        RejectedRequest r \<Rightarrow> r
      | _ \<Rightarrow> \<lparr>timestamp = None, ordinate = None, cron = None, req_processId = None\<rparr>)"

text \<open>
  The dependencies: the gateway query (its variables are the process id and the limit),
  the download of a transaction's data as a buffer, and \<open>gunzip\<close>. \<open>Inl\<close> is a rejected
  promise.
\<close>

record ('e, 'b) memory_deps =
  queryGateway :: "string option \<times> nat \<Rightarrow> 'e + gql_node list"
  loadTransactionData :: "string \<Rightarrow> 'e + 'b"
  gunzipP :: "'b \<Rightarrow> 'e + 'b"

definition maybeCached ::
  "('e, 'b) memory_deps \<Rightarrow> (string, 'b) cache \<Rightarrow> request \<Rightarrow> 'e rejection + 'b process_memory" where
  "maybeCached deps cache r =
     (case (case req_processId r of None \<Rightarrow> None | Some p \<Rightarrow> cache p) of
        None \<Rightarrow> Inl (RejectedRequest r)
      | Some cached \<Rightarrow>
          if truthy (timestamp r) \<and> isLaterThan (request_position r) (evaluation cached)
          then Inl (RejectedRequest r)
          else (case gunzipP deps (Memory cached) of
                  Inl err \<Rightarrow> Inl (RejectedError err)
                | Inr mem \<Rightarrow>
                    Inr \<lparr>timestamp = timestamp (evaluation cached),
                         ordinate = ordinate (evaluation cached),
                         cron = cron (evaluation cached),
                         found_Memory = Some mem,
                         found_blockHeight = Some (HeightNumber (blockHeight (evaluation cached)))\<rparr>))"

text \<open>
  \<open>decodeData(encoding)\<close> throws for an encoding that is set and is not gzip, and
  otherwise returns the function that decodes a buffer. It is called while the chain of
  the download is built, before the download starts; the throw happens in the
  continuation of the gateway query, whose promise turns it into a rejection.
\<close>

definition decodeData ::
  "('e, 'b) memory_deps \<Rightarrow> string option \<Rightarrow> 'e rejection + ('b \<Rightarrow> 'e + 'b)" where
  "decodeData deps enc =
     (if truthy enc \<and> enc \<noteq> Some ''gzip'' then Inl OnlyGzipSupported
      else Inr (\<lambda>buf. if \<not> truthy enc then Inr buf else gunzipP deps buf))"

definition maybeCheckpointFromArweave ::
  "('e, 'b) memory_deps \<Rightarrow> 'e rejection \<Rightarrow> 'e rejection + 'b process_memory" where
  "maybeCheckpointFromArweave deps rej =
     (let r = rejected_fields rej
      in case queryGateway deps (req_processId r, 50) of
           Inl err \<Rightarrow> Inl (RejectedError err)
         | Inr edges \<Rightarrow>
             (case determineLatestCheckpointBefore r edges of
                None \<Rightarrow> Inl (RejectedRequest r)
              | Some latestCheckpoint \<Rightarrow>
                  (case decodeData deps (ckpt_encoding latestCheckpoint) of
                     Inl thrown \<Rightarrow> Inl thrown
                   | Inr decode \<Rightarrow>
                       (case loadTransactionData deps (ckpt_id latestCheckpoint) of
                          Inl err \<Rightarrow> Inl (RejectedRequest r)
                        | Inr buf \<Rightarrow>
                            (case decode buf of
                               Inl err \<Rightarrow> Inl (RejectedRequest r)
                             | Inr mem \<Rightarrow>
                                 Inr \<lparr>timestamp = timestamp latestCheckpoint,
                                      ordinate = ordinate latestCheckpoint,
                                      cron = cron latestCheckpoint,
                                      found_Memory = Some mem,
                                      found_blockHeight =
                                        map_option HeightString
                                          (ckpt_blockHeight latestCheckpoint)\<rparr>)))))"

text \<open>
  \<open>COLLATION_SEQUENCE_MIN_CHAR\<close> is declared in \<open>pouchdb.js\<close>, which is not among the
  sources: it is a parameter.
\<close>

definition coldStart :: "string \<Rightarrow> 'e rejection \<Rightarrow> 'b process_memory" where
  "coldStart COLLATION_SEQUENCE_MIN_CHAR rej =
     \<lparr>timestamp = None, ordinate = Some COLLATION_SEQUENCE_MIN_CHAR, cron = None,
      found_Memory = None, found_blockHeight = None\<rparr>"

text \<open>
  \<open>of(...).chain(maybeCached).bichain(maybeCheckpointFromArweave, Resolved)
  .bichain(coldStart, Resolved).toPromise()\<close>: the value is what the promise resolves to.
\<close>

definition findProcessMemoryBefore ::
  "('e, 'b) memory_deps \<Rightarrow> (string, 'b) cache \<Rightarrow> string \<Rightarrow> request \<Rightarrow> 'b process_memory" where
  "findProcessMemoryBefore deps cache COLLATION_SEQUENCE_MIN_CHAR r =
     (case maybeCached deps cache r of
        Inr found \<Rightarrow> found
      | Inl rej \<Rightarrow>
          (case maybeCheckpointFromArweave deps rej of
             Inr found \<Rightarrow> found
           | Inl rej' \<Rightarrow> coldStart COLLATION_SEQUENCE_MIN_CHAR rej'))"

text \<open>
  For the evaluation: a gateway that knows one Checkpoint of the process, taken at
  timestamp 20, and a request for the memory before timestamp 10.
\<close>

definition node_at_20 :: gql_node where
  "node_at_20 =
     \<lparr>node_id = ''checkpoint-tx'', owner_address = ''cu'',
      node_tags = [(''Data-Protocol'', ''ao''), (''Type'', ''Checkpoint''), (''Process'', ''p''),
                   (''Nonce'', ''5''), (''Timestamp'', ''20''), (''Block-Height'', ''100'')]\<rparr>"

definition sample_deps :: "(string, string) memory_deps" where
  "sample_deps =
     \<lparr>queryGateway = (\<lambda>variables. Inr [node_at_20]),
      loadTransactionData = (\<lambda>txid. Inr ''memory-at-20''),
      gunzipP = (\<lambda>buf. Inr buf)\<rparr>"

definition request_at_10 :: request where
  "request_at_10 =
     \<lparr>timestamp = Some ''10'', ordinate = Some ''2'', cron = None, req_processId = Some ''p''\<rparr>"

section \<open>Publishing a Checkpoint (saveCheckpointWith)\<close>

text \<open>
  The argument of \<open>saveCheckpoint\<close>; nonce, timestamp and block height are the
  strings that \<open>`${nonce}`\<close>, \<open>`${timestamp}`\<close> and \<open>`${blockHeight}`\<close> give.
\<close>

record 'm checkpoint_args =
  ca_Memory :: 'm
  ca_encoding :: "string option"
  ca_processId :: string
  ca_moduleId :: string
  ca_timestamp :: string
  ca_epoch :: string
  ca_nonce :: string
  ca_blockHeight :: string
  ca_cron :: "string option"

text \<open>
  The variables of the query and the flag \<open>withCron\<close> that decides whether the query
  text filters on the tag \<open>Cron-Interval\<close>. The query always filters on the owner, the
  process, the nonce and the timestamp, and asks for the first match only.
\<close>

record checkpoint_query =
  q_owner :: string
  q_processId :: string
  q_nonce :: string
  q_timestamp :: string
  q_cron :: "string option"
  q_withCron :: bool

definition checkpoint_query_of :: "string \<Rightarrow> 'm checkpoint_args \<Rightarrow> checkpoint_query" where
  "checkpoint_query_of owner a =
     \<lparr>q_owner = owner, q_processId = ca_processId a, q_nonce = ca_nonce a,
      q_timestamp = ca_timestamp a, q_cron = ca_cron a, q_withCron = truthy (ca_cron a)\<rparr>"

record 'm data_item =
  item_data :: 'm
  item_tags :: "(string \<times> string) list"

record 's signed_data_item =
  signed_id :: string
  signed_data :: 's

text \<open>\<open>s.trim()\<close>\<close>

definition js_trim :: "string \<Rightarrow> string" where
  "js_trim s = rev (dropWhile isWhiteSpace (rev (dropWhile isWhiteSpace s)))"

text \<open>The data item that \<open>createCheckpointDataItem\<close> hands to \<open>buildAndSignDataItem\<close>.\<close>

definition checkpointDataItem :: "string \<Rightarrow> 'm checkpoint_args \<Rightarrow> 'm data_item" where
  "checkpointDataItem sha a =
     \<lparr>item_data = ca_Memory a,
      item_tags =
        [(''Data-Protocol'', ''ao''),
         (''Variant'', ''ao.TN.1''),
         (''Type'', ''Checkpoint''),
         (''Module'', js_trim (ca_moduleId a)),
         (''Process'', js_trim (ca_processId a)),
         (''Epoch'', js_trim (ca_epoch a)),
         (''Nonce'', js_trim (ca_nonce a)),
         (''Timestamp'', js_trim (ca_timestamp a)),
         (''Block-Height'', js_trim (ca_blockHeight a)),
         (''Content-Type'', ''application/octet-stream''),
         (''SHA-256'', sha)]
        @ (case ca_cron a of
             None \<Rightarrow> []
           | Some c \<Rightarrow> if c = [] then [] else [(''Cron-Interval'', c)])
        @ (case ca_encoding a of
             None \<Rightarrow> []
           | Some enc \<Rightarrow> if enc = [] then [] else [(''Content-Encoding'', enc)])\<rparr>"

text \<open>
  The dependencies, each a promise-returning function (\<open>Inl\<close> is a rejection), and the
  calls made to them, in order: what \<open>saveCheckpoint\<close> does to the world.
\<close>

record ('e, 'm, 's, 'u) checkpoint_deps =
  sc_address :: "'e + string"
  sc_queryGateway :: "checkpoint_query \<Rightarrow> 'e + gql_node list"
  sc_hashWasmMemory :: "'m \<Rightarrow> string option \<Rightarrow> 'e + string"
  sc_buildAndSignDataItem :: "'m data_item \<Rightarrow> 'e + 's signed_data_item"
  sc_uploadDataItem :: "'s \<Rightarrow> 'e + 'u"

datatype ('m, 's) checkpoint_effect =
  GetAddress
| QueryGateway checkpoint_query
| HashWasmMemory 'm "string option"
| BuildAndSignDataItem "'m data_item"
| UploadDataItem 's

text \<open>
  \<^verbatim>\<open>
  address()
    .map((owner) => ({ owner, processId, nonce: `${nonce}`, timestamp: `${timestamp}`, cron }))
    .chain((variables) => queryGateway({ variables, query: GET_AO_PROCESS_CHECKPOINTS(!!cron) }))
    .map(path(['data', 'transactions', 'edges', '0']))
    .chain((checkpoint) => {
      if (checkpoint) return Resolved()
      return of({ ... })
        .chain((args) => createCheckpointDataItem({ ...args, Memory }))
        .chain((dataItem) => uploadDataItem(dataItem.data))
        .bimap(logger.tap(...), (res) => { logger(...) })
    })
  \<close>
  The result is the list of calls made and what the promise settles to.
\<close>

definition saveCheckpoint ::
  "('e, 'm, 's, 'u) checkpoint_deps \<Rightarrow> 'm checkpoint_args
     \<Rightarrow> ('m, 's) checkpoint_effect list \<times> ('e + unit)" where
  "saveCheckpoint deps a =
     (case sc_address deps of
        Inl err \<Rightarrow> ([GetAddress], Inl err)
      | Inr owner \<Rightarrow>
          (let variables = checkpoint_query_of owner a;
               queried = [GetAddress, QueryGateway variables]
           in case sc_queryGateway deps variables of
                Inl err \<Rightarrow> (queried, Inl err)
              | Inr (checkpoint # _) \<Rightarrow> (queried, Inr ())
              | Inr [] \<Rightarrow>
                  (let hashed = queried @ [HashWasmMemory (ca_Memory a) (ca_encoding a)]
                   in case sc_hashWasmMemory deps (ca_Memory a) (ca_encoding a) of
                        Inl err \<Rightarrow> (hashed, Inl err)
                      | Inr sha \<Rightarrow>
                          (let item = checkpointDataItem sha a;
                               signed = hashed @ [BuildAndSignDataItem item]
                           in case sc_buildAndSignDataItem deps item of
                                Inl err \<Rightarrow> (signed, Inl err)
                              | Inr dataItem \<Rightarrow>
                                  (let uploaded = signed @ [UploadDataItem (signed_data dataItem)]
                                   in case sc_uploadDataItem deps (signed_data dataItem) of
                                        Inl err \<Rightarrow> (uploaded, Inl err)
                                      | Inr res \<Rightarrow> (uploaded, Inr ()))))))"

text \<open>For the evaluations: an evaluation to publish and a unit whose gateway answers \<open>found\<close>.\<close>

definition sample_checkpoint_args :: "string checkpoint_args" where
  "sample_checkpoint_args =
     \<lparr>ca_Memory = ''zipped'', ca_encoding = Some ''gzip'', ca_processId = ''p'',
      ca_moduleId = ''m'', ca_timestamp = ''20'', ca_epoch = ''0'', ca_nonce = ''5'',
      ca_blockHeight = ''100'', ca_cron = None\<rparr>"

definition sample_checkpoint_deps ::
  "gql_node list \<Rightarrow> (string, string, string, string) checkpoint_deps" where
  "sample_checkpoint_deps found =
     \<lparr>sc_address = Inr ''cu'',
      sc_queryGateway = (\<lambda>q. Inr found),
      sc_hashWasmMemory = (\<lambda>mem enc. Inr ''sha''),
      sc_buildAndSignDataItem = (\<lambda>item. Inr \<lparr>signed_id = ''tx'', signed_data = ''signed''\<rparr>),
      sc_uploadDataItem = (\<lambda>raw. Inr ''uploaded'')\<rparr>"

section \<open>Forwarding a message to the SU (writeMessageWith)\<close>

record 'b http_request =
  req_url :: string
  req_method :: string
  req_headers :: "(string \<times> string) list"
  req_body :: 'b

text \<open>
  A response: \<open>res.ok\<close>, \<open>res.status\<close> (an integer of three digits), what
  \<open>res.text()\<close> resolves to, and what \<open>res.json()\<close> resolves to (\<open>None\<close> when the
  body is not JSON and it rejects).
\<close>

record 'j http_response =
  resp_ok :: bool
  resp_status :: nat
  resp_text :: string
  resp_json :: "'j option"

text \<open>
  What the promise of \<open>writeMessage\<close> can reject with: the \<open>TypeError\<close> of calling
  \<open>.then\<close> on \<open>undefined\<close>, the stringified error of the communication, the error
  \<open>`${res.status}: ${text}`\<close>, or the rejection of \<open>res.json()\<close>.
\<close>

datatype 'e write_rejection =
  TypeError_of_undefined
| Stringified 'e
| StatusError string
| BodyNotJson

text \<open>
  The function handed to \<open>fromPromise\<close> in the first \<open>chain\<close>:
  \<^verbatim>\<open>
  (body) => {
    fetch(`${SEQUENCER_URL}/message`, {
      method: 'POST',
      headers: { 'Content-Type': 'application/octet-stream', Accept: 'application/json' },
      body
    })
  }
  \<close>
  Its body is a block with no \<open>return\<close>: it sends the request and its value is
  \<open>undefined\<close> (\<open>None\<close>), not the promise of \<open>fetch\<close>. The result is the requests sent
  and the value returned.
\<close>

definition forwardToSU ::
  "('b http_request \<Rightarrow> 'e + 'j http_response) \<Rightarrow> string \<Rightarrow> 'b
     \<Rightarrow> 'b http_request list \<times> ('e + 'j http_response) option" where
  "forwardToSU fetch SEQUENCER_URL body =
     (let request =
            \<lparr>req_url = SEQUENCER_URL @ ''/message'', req_method = ''POST'',
             req_headers = [(''Content-Type'', ''application/octet-stream''),
                            (''Accept'', ''application/json'')],
             req_body = body\<rparr>;
          promise = fetch request
      in ([request], None))"

text \<open>
  \<open>fromPromise(f)(x)\<close> forks by calling \<open>f(x).then(...)\<close>. When \<open>f(x)\<close> is
  \<open>undefined\<close> this throws; the throw is inside the executor of \<open>toPromise\<close>, so the
  promise is rejected with the \<open>TypeError\<close> and neither branch of the later
  \<open>bimap\<close> and \<open>bichain\<close> runs.
\<close>

datatype ('e, 'a) forked = Threw | Rejected 'e | Resolved 'a

definition fromPromise :: "('e + 'a) option \<Rightarrow> ('e, 'a) forked" where
  "fromPromise returned =
     (case returned of
        None \<Rightarrow> Threw
      | Some (Inl err) \<Rightarrow> Rejected err
      | Some (Inr x) \<Rightarrow> Resolved x)"

text \<open>
  The resolved branch of the \<open>bichain\<close>:
  \<^verbatim>\<open>
  async (res) => {
    if (!res?.ok) { const text = await res.text(); throw new Error(`${res.status}: ${text}`) }
    return res.json()
  }
  \<close>
\<close>

definition readResponse :: "'j http_response \<Rightarrow> 'e write_rejection + 'j" where
  "readResponse res =
     (if \<not> resp_ok res then Inl (StatusError (decimal (resp_status res) @ '': '' @ resp_text res))
      else (case resp_json res of None \<Rightarrow> Inl BodyNotJson | Some j \<Rightarrow> Inr j))"

text \<open>
  \<open>writeMessage(data)\<close>: the requests sent and what the promise settles to.
  \<open>Buffer.from(data, 'base64')\<close> is the parameter \<open>fromBase64\<close>.
\<close>

definition writeMessage ::
  "('b http_request \<Rightarrow> 'e + 'j http_response) \<Rightarrow> (string \<Rightarrow> 'b) \<Rightarrow> string \<Rightarrow> string
     \<Rightarrow> 'b http_request list \<times> ('e write_rejection + 'j)" where
  "writeMessage fetch fromBase64 SEQUENCER_URL data =
     (case forwardToSU fetch SEQUENCER_URL (fromBase64 data) of
        (sent, returned) \<Rightarrow>
          (sent,
           case fromPromise returned of
             Threw \<Rightarrow> Inl TypeError_of_undefined
           | Rejected err \<Rightarrow> Inl (Stringified err)
           | Resolved res \<Rightarrow> readResponse res))"

text \<open>For the evaluation: an SU that accepts every message with status 200 and a JSON body.\<close>

definition accepting_su :: "string http_request \<Rightarrow> string + string http_response" where
  "accepting_su request =
     Inr \<lparr>resp_ok = True, resp_status = 200, resp_text = ''{ id: tx-1 }'',
          resp_json = Some ''tx-1''\<rparr>"

definition rejecting_su :: "string http_request \<Rightarrow> string + string http_response" where
  "rejecting_su request =
     Inr \<lparr>resp_ok = False, resp_status = 400, resp_text = ''bad data item'',
          resp_json = None\<rparr>"

section \<open>The message source (loadInteractionsWith)\<close>

text \<open>
  An interaction as the sequencer returns it, after \<open>interactionsPageSchema.parse\<close>, and
  a page of them. \<open>paging\<close> is parsed and never read.
\<close>

record raw_interaction =
  ri_tags :: "(string \<times> string) list"
  ri_block_id :: string
  ri_block_height :: nat
  ri_block_timestamp :: nat
  ri_sortKey :: string

record 'p interactions_page =
  paging :: 'p
  page_interactions :: "raw_interaction list"

text \<open>What is yielded for an interaction: \<open>{ sortKey, action }\<close>.\<close>

record 'a interaction =
  sortKey :: string
  action :: 'a

text \<open>
  \<open>reduce((a, t) => assoc(t.name, t.value, a), {})\<close> followed by \<open>prop("Input")\<close>: the
  value of the last tag named \<open>Input\<close>.
\<close>

definition tagsInput :: "(string \<times> string) list \<Rightarrow> string option" where
  "tagsInput tags = foldl (\<lambda>a t. a(fst t \<mapsto> snd t)) Map.empty tags ''Input''"

text \<open>
  \<open>JSON.parse\<close> is the parameter \<open>parseJSON\<close>, \<open>None\<close> where it throws; it throws on
  \<open>undefined\<close>, the input of an interaction with no \<open>Input\<close> tag.
\<close>

definition toInteraction :: "(string \<Rightarrow> 'a option) \<Rightarrow> raw_interaction \<Rightarrow> 'a interaction option" where
  "toInteraction parseJSON ri =
     (case tagsInput (ri_tags ri) of
        None \<Rightarrow> None
      | Some input \<Rightarrow>
          (case parseJSON input of
             None \<Rightarrow> None
           | Some act \<Rightarrow> Some \<lparr>sortKey = ri_sortKey ri, action = act\<rparr>))"

text \<open>
  The transducer: each interaction is mapped and put in front of the accumulator
  (\<open>acc.unshift(input)\<close>); a throw of the mapping ends it.
\<close>

fun unshiftAll :: "('r \<Rightarrow> 'i option) \<Rightarrow> 'i list \<Rightarrow> 'r list \<Rightarrow> 'i list option" where
  "unshiftAll f acc [] = Some acc"
| "unshiftAll f acc (x # xs) =
     (case f x of None \<Rightarrow> None | Some input \<Rightarrow> unshiftAll f (input # acc) xs)"

text \<open>\<open>`${x}`\<close> of a bound: the string, or the text \<open>undefined\<close>.\<close>

definition template :: "string option \<Rightarrow> string" where
  "template v = (case v of None \<Rightarrow> ''undefined'' | Some s \<Rightarrow> s)"

definition interactions_url :: "string \<Rightarrow> bounds \<Rightarrow> string" where
  "interactions_url SEQUENCER_URL b =
     SEQUENCER_URL @ ''/gateway/v2/interactions-sort-key?contractId='' @ contractId b
       @ ''&from='' @ template (from_key b) @ ''&to='' @ template (to_key b)"

datatype 'e load_error = FetchFailed 'e | InputNotJson | SchemaViolation

text \<open>
  \<open>loadInteractions(ctx)\<close>: the urls requested, in order, and what the promise settles
  to. \<open>fetch\<close> stands for the request, \<open>res.json()\<close> and the parse of the page;
  \<open>Inl\<close> is a failure of any of them. \<open>interactionSchema\<close> is declared in
  \<open>dal.js\<close>, which is not among the sources: it is a parameter, the predicate of the
  values that \<open>z.array(interactionSchema).parse\<close> accepts.
  \<^verbatim>\<open>
  fetch(
    // TODO: need to be able to load multiple pages until all interactions are fetched
    `${SEQUENCER_URL}/gateway/v2/interactions-sort-key?contractId=${id}&from=${from}&to=${to}`,
  )
    .then((res) => res.json())
    .then(interactionsPageSchema.parse)
    .then(prop("interactions"))
    .then((interactions) => transduce(..., (acc, input) => { acc.unshift(input); return acc; },
                                      [], interactions))
    .then(z.array(interactionSchema).parse)
  \<close>
\<close>

definition loadInteractions ::
  "(string \<Rightarrow> 'e + 'p interactions_page) \<Rightarrow> (string \<Rightarrow> 'a option) \<Rightarrow> ('a interaction \<Rightarrow> bool)
     \<Rightarrow> string \<Rightarrow> bounds \<Rightarrow> string list \<times> ('e load_error + 'a interaction list)" where
  "loadInteractions fetch parseJSON interactionSchema SEQUENCER_URL ctx =
     (let url = interactions_url SEQUENCER_URL (mapBounds ctx)
      in ([url],
          case fetch url of
            Inl err \<Rightarrow> Inl (FetchFailed err)
          | Inr page \<Rightarrow>
              (case unshiftAll (toInteraction parseJSON) [] (page_interactions page) of
                 None \<Rightarrow> Inl InputNotJson
               | Some interactions \<Rightarrow>
                   if list_all interactionSchema interactions then Inr interactions
                   else Inl SchemaViolation)))"

text \<open>
  For the evaluations: an SU that holds its interactions in pages, each page and the
  sequence of pages in descending order. A request that names no page is answered with
  the first page; \<open>paging\<close> tells how many pages there are.
\<close>

definition su_with_pages :: "raw_interaction list list \<Rightarrow> string \<Rightarrow> unit + nat interactions_page" where
  "su_with_pages pages url =
     Inr \<lparr>paging = length pages,
          page_interactions = (case pages of [] \<Rightarrow> [] | first_page # _ \<Rightarrow> first_page)\<rparr>"

text \<open>The interaction of the block at a height of one digit.\<close>

definition interaction_at :: "nat \<Rightarrow> raw_interaction" where
  "interaction_at h =
     \<lparr>ri_tags = [(''Input'', ''{}'')], ri_block_id = ''block'', ri_block_height = h,
      ri_block_timestamp = 1694181441, ri_sortKey = ''00000000000'' @ decimal h @ '',1694181441598,tx''\<rparr>"

definition sample_ctx :: bounds where
  "sample_ctx = \<lparr>contractId = ''p'', from_key = Some ''1'', to_key = Some ''9''\<rparr>"

section \<open>The monitor worker (servers/mu/src/domain/lib/monitor/worker.js)\<close>

record 'b monitor =
  mon_id :: string
  authorized :: bool
  lastFromSortKey :: "string option"
  interval :: string
  mon_block :: 'b
  createdAt :: nat

text \<open>
  A scheduled message as the CU returns it: its \<open>scheduledSortKey\<close> and the rest of its
  properties, which is what \<open>msgWithoutScheduledSortKey\<close> keeps.
\<close>

record 'x scheduled_message =
  scheduledSortKey :: "string option"
  msg_rest :: 'x

text \<open>
  What \<open>response.json()\<close> can resolve to: a falsy value, a value that is not an array
  (with whether its \<open>length\<close> compares below 1), or an array of messages.
\<close>

datatype 'x scheduled_json =
  JsonFalsy
| JsonNotArray bool
| JsonArray "'x scheduled_message list"

text \<open>The document handed to \<open>saveMsg\<close>.\<close>

record ('x, 'd) saved_msg =
  sm_id :: string
  sm_fromTxId :: string
  sm_msg :: 'x
  sm_cachedAt :: 'd

text \<open>
  The dependencies of a run. \<open>Inl\<close> is a rejection. \<open>mu_fetch\<close> is \<open>fetch\<close> followed by
  \<open>response.json()\<close>. \<open>mu_random k\<close> is the string that the \<open>k\<close>-th
  \<open>Math.floor(Math.random() * 1e18).toString()\<close> of the run gives and \<open>mu_now k\<close>
  the \<open>k\<close>-th \<open>new Date()\<close>.
\<close>

record ('e, 'x, 'd, 'm, 'r, 'b) monitor_deps =
  mu_fetch :: "string \<Rightarrow> 'e + 'x scheduled_json"
  mu_saveMsg :: "('x, 'd) saved_msg \<Rightarrow> 'e + unit"
  mu_findLatestMsgs :: "string \<Rightarrow> 'e + 'm list"
  mu_crankMsgs :: "'m list \<Rightarrow> 'e + 'r"
  mu_updateMonitor :: "'b monitor \<Rightarrow> 'e + unit"
  mu_random :: "nat \<Rightarrow> string"
  mu_now :: "nat \<Rightarrow> 'd"

text \<open>The calls a run makes, in order.\<close>

datatype ('x, 'd, 'm, 'b) monitor_event =
  FetchScheduled string
| SaveMsg "('x, 'd) saved_msg"
| FindLatestMsgs string
| CrankMsgs "'m list"
| UpdateMonitor "'b monitor"

text \<open>How a run ends: it returns \<open>[]\<close>, it returns \<open>{status: 'ok'}\<close>, or it throws.\<close>

datatype 'e monitor_outcome =
  ReturnedEmpty
| ReturnedOk
| ThrewRejection 'e
| ThrewTypeError

definition scheduledUrl :: "string \<Rightarrow> 'b monitor \<Rightarrow> string" where
  "scheduledUrl CU_URL m =
     (case lastFromSortKey m of
        None \<Rightarrow> CU_URL @ ''/scheduled/'' @ mon_id m
      | Some k \<Rightarrow>
          if k = [] then CU_URL @ ''/scheduled/'' @ mon_id m
          else CU_URL @ ''/scheduled/'' @ mon_id m @ ''?from='' @ k)"

text \<open>
  \<open>fetchScheduled\<close> catches every error of the request and then returns nothing:
  \<open>undefined\<close> is \<open>None\<close>.
\<close>

definition fetchScheduled ::
  "('e, 'x, 'd, 'm, 'r, 'b) monitor_deps \<Rightarrow> string \<Rightarrow> 'b monitor \<Rightarrow> 'x scheduled_json option" where
  "fetchScheduled deps CU_URL m =
     (case mu_fetch deps (scheduledUrl CU_URL m) of Inl err \<Rightarrow> None | Inr scheduled \<Rightarrow> Some scheduled)"

text \<open>The documents of a batch: one random id for the batch, then one per message.\<close>

definition batchTxId :: "('e, 'x, 'd, 'm, 'r, 'b) monitor_deps \<Rightarrow> string" where
  "batchTxId deps = ''scheduled-'' @ mu_random deps 0"

definition batchDocuments ::
  "('e, 'x, 'd, 'm, 'r, 'b) monitor_deps \<Rightarrow> 'x scheduled_message list \<Rightarrow> ('x, 'd) saved_msg list" where
  "batchDocuments deps scheduled =
     map (\<lambda>(k, msg). \<lparr>sm_id = mu_random deps (Suc k), sm_fromTxId = batchTxId deps,
                      sm_msg = msg_rest msg, sm_cachedAt = mu_now deps k\<rparr>)
         (enumerate 0 scheduled)"

text \<open>\<open>Promise.all\<close>: every save has been started; the first rejection, if any, is thrown.\<close>

definition firstRejection :: "('e + 'a) list \<Rightarrow> 'e option" where
  "firstRejection results =
     (case filter isl results of [] \<Rightarrow> None | r # _ \<Rightarrow> (case r of Inl err \<Rightarrow> Some err | Inr _ \<Rightarrow> None))"

text \<open>
  \<open>processMonitor(monitor)\<close>: the calls made, the monitor object after the run, and how
  the run ends. The \<open>catch\<close> logs and throws again.
  \<^verbatim>\<open>
  let scheduled = await fetchScheduled(monitor)
  if(!scheduled || scheduled.length < 1) return [];
  let fromTxId = `scheduled-${Math.floor(Math.random() * 1e18).toString()}`
  const savePromises = scheduled.map(msg => { ... return saveMsg({ ... }) })
  await Promise.all(savePromises)
  let dbMsgs = await findLatestMsgs({fromTxId})
  await of(dbMsgs).map(dbMsgs => ({ msgs: dbMsgs, spawns: [] }))
    .chain(res => apis.crankMsgs(res).bimap(...)).toPromise()
  let lastScheduled = scheduled[scheduled.length - 1]
  monitor.lastFromSortKey = lastScheduled.scheduledSortKey
  await updateMonitor(monitor)
  return {status: 'ok'}
  \<close>
\<close>

definition processBatch ::
  "('e, 'x, 'd, 'm, 'r, 'b) monitor_deps \<Rightarrow> 'b monitor \<Rightarrow> 'x scheduled_message list
     \<Rightarrow> ('x, 'd, 'm, 'b) monitor_event list \<times> 'b monitor \<times> 'e monitor_outcome" where
  "processBatch deps m scheduled =
     (let docs = batchDocuments deps scheduled;
          saved = map SaveMsg docs
      in case firstRejection (map (mu_saveMsg deps) docs) of
           Some err \<Rightarrow> (saved, m, ThrewRejection err)
         | None \<Rightarrow>
             (let found = saved @ [FindLatestMsgs (batchTxId deps)]
              in case mu_findLatestMsgs deps (batchTxId deps) of
                   Inl err \<Rightarrow> (found, m, ThrewRejection err)
                 | Inr dbMsgs \<Rightarrow>
                     (let cranked = found @ [CrankMsgs dbMsgs]
                      in case mu_crankMsgs deps dbMsgs of
                           Inl err \<Rightarrow> (cranked, m, ThrewRejection err)
                         | Inr res \<Rightarrow>
                             (let m' = m\<lparr>lastFromSortKey := scheduledSortKey (last scheduled)\<rparr>;
                                  updated = cranked @ [UpdateMonitor m']
                              in case mu_updateMonitor deps m' of
                                   Inl err \<Rightarrow> (updated, m', ThrewRejection err)
                                 | Inr _ \<Rightarrow> (updated, m', ReturnedOk)))))"

definition processMonitor ::
  "('e, 'x, 'd, 'm, 'r, 'b) monitor_deps \<Rightarrow> string \<Rightarrow> 'b monitor
     \<Rightarrow> ('x, 'd, 'm, 'b) monitor_event list \<times> 'b monitor \<times> 'e monitor_outcome" where
  "processMonitor deps CU_URL m =
     (let fetched = [FetchScheduled (scheduledUrl CU_URL m)]
      in case fetchScheduled deps CU_URL m of
           None \<Rightarrow> (fetched, m, ReturnedEmpty)
         | Some JsonFalsy \<Rightarrow> (fetched, m, ReturnedEmpty)
         | Some (JsonNotArray lengthBelowOne) \<Rightarrow>
             if lengthBelowOne then (fetched, m, ReturnedEmpty) else (fetched, m, ThrewTypeError)
         | Some (JsonArray scheduled) \<Rightarrow>
             if length scheduled < 1 then (fetched, m, ReturnedEmpty)
             else (case processBatch deps m scheduled of
                     (events, m', outcome) \<Rightarrow> (fetched @ events, m', outcome)))"

text \<open>For the evaluation: a monitor, a batch of two messages, and dependencies that succeed.\<close>

definition sample_monitor :: "unit monitor" where
  "sample_monitor =
     \<lparr>mon_id = ''p'', authorized = True, lastFromSortKey = Some ''k0'', interval = ''1-minute'',
      mon_block = (), createdAt = 1\<rparr>"

definition sample_batch :: "string scheduled_message list" where
  "sample_batch =
     [\<lparr>scheduledSortKey = Some ''k1'', msg_rest = ''first''\<rparr>,
      \<lparr>scheduledSortKey = Some ''k2'', msg_rest = ''second''\<rparr>]"

definition sample_monitor_deps ::
  "string scheduled_json \<Rightarrow> (string, string, nat, string, unit, unit) monitor_deps" where
  "sample_monitor_deps scheduled =
     \<lparr>mu_fetch = (\<lambda>url. Inr scheduled),
      mu_saveMsg = (\<lambda>doc. Inr ()),
      mu_findLatestMsgs = (\<lambda>fromTxId. Inr [''first'', ''second'']),
      mu_crankMsgs = (\<lambda>msgs. Inr ()),
      mu_updateMonitor = (\<lambda>m. Inr ()),
      mu_random = (\<lambda>k. if k = 0 then ''7'' else if k = 1 then ''8'' else ''9''),
      mu_now = (\<lambda>k. 1000 + k)\<rparr>"

section \<open>Properties of the order\<close>

text \<open>
  C7. \<open>isLaterThan(a, b)\<close> holds exactly when \<open>b\<close> comes after \<open>a\<close> in the order that
  compares the timestamps first and, for equal timestamps, the cron intervals as strings,
  an absent cron counting as the empty string. So at one timestamp two crons that are
  both present are compared as the strings they are (\<open>1m\<close> comes before \<open>5m\<close>), an
  absent or empty cron comes before every non-empty cron, and nothing comes before an
  absent cron. The two examples of the specification hold:
  \<open>isLaterThan({t:10, cron:""}, {t:10, cron:"1m"})\<close> and \<open>isLaterThan({t:10}, {t:11})\<close>.
\<close>

theorem isLaterThan_timestamp_then_cron:
  "isLaterThan (a\<lparr>timestamp := Some ta, cron := ca\<rparr>) (b\<lparr>timestamp := Some tb, cron := cb\<rparr>)
     = (ta < tb
        \<or> (ta = tb
            \<and> (case ca of None \<Rightarrow> [] | Some x \<Rightarrow> x) < (case cb of None \<Rightarrow> [] | Some y \<Rightarrow> y)))
   \<and> isLaterThan (a\<lparr>timestamp := Some t, cron := Some x\<rparr>) (b\<lparr>timestamp := Some t, cron := Some y\<rparr>)
       = (x < y)
   \<and> isLaterThan (a\<lparr>timestamp := Some t, cron := None\<rparr>)
         (b\<lparr>timestamp := Some t, cron := Some (c # cs)\<rparr>)
   \<and> isLaterThan (a\<lparr>timestamp := Some t, cron := Some []\<rparr>)
         (b\<lparr>timestamp := Some t, cron := Some (c # cs)\<rparr>)
   \<and> \<not> isLaterThan (a\<lparr>timestamp := Some t, cron := ca\<rparr>) (b\<lparr>timestamp := Some t, cron := None\<rparr>)
   \<and> \<not> isLaterThan (a\<lparr>timestamp := Some t, cron := ca\<rparr>) (b\<lparr>timestamp := Some t, cron := Some []\<rparr>)
   \<and> isLaterThan \<lparr>timestamp = Some (10::nat), ordinate = None, cron = Some ''''\<rparr>
                 \<lparr>timestamp = Some 10, ordinate = None, cron = Some ''1m''\<rparr>
   \<and> isLaterThan \<lparr>timestamp = Some (10::nat), ordinate = None, cron = None\<rparr>
                 \<lparr>timestamp = Some 11, ordinate = None, cron = None\<rparr>
   \<and> isLaterThan \<lparr>timestamp = Some (10::nat), ordinate = None, cron = Some ''1m''\<rparr>
                 \<lparr>timestamp = Some 10, ordinate = None, cron = Some ''5m''\<rparr>
   \<and> \<not> isLaterThan \<lparr>timestamp = Some (10::nat), ordinate = None, cron = Some ''5m''\<rparr>
                   \<lparr>timestamp = Some 10, ordinate = None, cron = Some ''1m''\<rparr>"
  by (auto simp add: isLaterThan_def js_gt_def orEmpty_def split: option.splits)

theorem isLaterThan_timestamp_then_cron_witness:
  "isLaterThan \<lparr>timestamp = Some (7::nat), ordinate = None, cron = Some ''10-minutes''\<rparr>
               \<lparr>timestamp = Some 7, ordinate = None, cron = Some ''5-minutes''\<rparr>
   \<and> \<not> isLaterThan \<lparr>timestamp = Some (7::nat), ordinate = None, cron = Some ''5-minutes''\<rparr>
               \<lparr>timestamp = Some 7, ordinate = None, cron = Some ''10-minutes''\<rparr>
   \<and> isLaterThan \<lparr>timestamp = Some (7::nat), ordinate = None, cron = None\<rparr>
               \<lparr>timestamp = Some 7, ordinate = None, cron = Some ''5-minutes''\<rparr>
   \<and> \<not> isLaterThan \<lparr>timestamp = Some (7::nat), ordinate = None, cron = Some ''5-minutes''\<rparr>
               \<lparr>timestamp = Some 7, ordinate = None, cron = None\<rparr>
   \<and> \<not> isLaterThan \<lparr>timestamp = Some (8::nat), ordinate = None, cron = None\<rparr>
               \<lparr>timestamp = Some 7, ordinate = None, cron = Some ''5-minutes''\<rparr>"
  using isLaterThan_timestamp_then_cron
          [where a = "\<lparr>timestamp = None, ordinate = None, cron = None\<rparr>" and ta = "7::nat"
             and ca = "Some ''10-minutes''"
             and b = "\<lparr>timestamp = None, ordinate = None, cron = None\<rparr>" and tb = 7
             and cb = "Some ''5-minutes''"]
        isLaterThan_timestamp_then_cron
          [where a = "\<lparr>timestamp = None, ordinate = None, cron = None\<rparr>" and ta = "7::nat"
             and ca = "Some ''5-minutes''"
             and b = "\<lparr>timestamp = None, ordinate = None, cron = None\<rparr>" and tb = 7
             and cb = "Some ''10-minutes''"]
        isLaterThan_timestamp_then_cron
          [where a = "\<lparr>timestamp = None, ordinate = None, cron = None\<rparr>" and ta = "7::nat"
             and ca = "None"
             and b = "\<lparr>timestamp = None, ordinate = None, cron = None\<rparr>" and tb = 7
             and cb = "Some ''5-minutes''"]
        isLaterThan_timestamp_then_cron
          [where a = "\<lparr>timestamp = None, ordinate = None, cron = None\<rparr>" and ta = "7::nat"
             and ca = "Some ''5-minutes''"
             and b = "\<lparr>timestamp = None, ordinate = None, cron = None\<rparr>" and tb = 7
             and cb = "None"]
        isLaterThan_timestamp_then_cron
          [where a = "\<lparr>timestamp = None, ordinate = None, cron = None\<rparr>" and ta = "8::nat"
             and ca = "None"
             and b = "\<lparr>timestamp = None, ordinate = None, cron = None\<rparr>" and tb = 7
             and cb = "Some ''5-minutes''"]
  by simp

section \<open>What saveLatestProcessMemory does to a later entry\<close>

lemma isLaterThan_entry_properties:
  "isLaterThan (entry_properties cached) \<lparr>timestamp = Some t, ordinate = ord, cron = c\<rparr> = False"
  by (simp add: isLaterThan_def entry_properties_def js_gt_def)

lemma saveLatestProcessMemory_timestamped:
  "timestamp a = Some t \<Longrightarrow> gzipP (arg_Memory a) = Inr z \<Longrightarrow>
   saveLatestProcessMemory gzipP cache a
     = Inr (cache(arg_processId a \<mapsto> \<lparr>Memory = z, evaluation = evaluation_of_args a\<rparr>))"
  by (simp add: saveLatestProcessMemory_def Let_def isLaterThan_def entry_properties_def js_gt_def
        split: option.split)

text \<open>
  C1. The cache holds, for process \<open>p\<close>, the evaluation at timestamp 20. A call with the
  evaluation at timestamp 10 comes in: the cached evaluation is later than the incoming
  one, and the call overwrites the entry with the incoming evaluation all the same. The
  guard compares the incoming position with the entry object, whose \<open>timestamp\<close> is
  \<open>undefined\<close>, and not with the entry's evaluation.
\<close>

theorem saveLatestProcessMemory_overwrites_later_entry:
  "map_option evaluation (cache_at 20 ''p'') = Some (evaluation_of_args (args_at 20))
   \<and> isLaterThan (args_at 10) (evaluation_of_args (args_at 20))
   \<and> saveLatestProcessMemory (\<lambda>m. Inr (''gzip:'' @ m)) (cache_at 20) (args_at 10)
       = Inr ((cache_at 20)(''p'' \<mapsto>
            \<lparr>Memory = ''gzip:mem'', evaluation = evaluation_of_args (args_at 10)\<rparr>))
   \<and> map_option (timestamp \<circ> evaluation)
        (case saveLatestProcessMemory (\<lambda>m. Inr (''gzip:'' @ m)) (cache_at 20) (args_at 10) of
           Inl e \<Rightarrow> None | Inr c \<Rightarrow> c ''p'') = Some (Some 10)"
  by (simp add: saveLatestProcessMemory_def Let_def isLaterThan_def entry_properties_def js_gt_def
        cache_at_def args_at_def evaluation_of_args_def)

section \<open>Splitting, joining and padding\<close>

declare decimal.simps [simp del]

lemma decimal_digit: "n < 10 \<Longrightarrow> decimal n = [digitChar n]"
  by (simp add: decimal.simps)

lemma decimal_more: "10 \<le> n \<Longrightarrow> decimal n = decimal (n div 10) @ [digitChar (n mod 10)]"
  by (subst decimal.simps) simp

lemma replicate_numeral: "replicate (numeral k) x = x # replicate (pred_numeral k) x"
  by (simp add: numeral_eq_Suc)

lemma js_split_nonempty [simp]: "js_split c s \<noteq> []"
  by (induction s) (auto split: list.split)

lemma js_join_split [simp]: "js_join c (js_split c s) = s"
proof (induction s)
  case Nil
  then show ?case by simp
next
  case (Cons x xs)
  obtain f fs where sp: "js_split c xs = f # fs"
    using js_split_nonempty [of c xs] by (cases "js_split c xs") auto
  with Cons show ?case by (cases fs) auto
qed

lemma js_split_fields: "list_all (\<lambda>f. c \<notin> set f) (js_split c s)"
proof (induction s)
  case Nil
  then show ?case by simp
next
  case (Cons x xs)
  obtain g gs where sp: "js_split c xs = g # gs"
    using js_split_nonempty [of c xs] by (cases "js_split c xs") auto
  with Cons show ?case by auto
qed

lemma js_split_no_sep: "c \<notin> set f \<Longrightarrow> js_split c f = [f]"
  by (induction f) auto

lemma js_split_append_field:
  "c \<notin> set f \<Longrightarrow> js_split c (f @ c # s) = f # js_split c s"
proof (induction f)
  case Nil
  obtain g gs where "js_split c s = g # gs"
    using js_split_nonempty [of c s] by (cases "js_split c s") auto
  then show ?case by simp
next
  case (Cons a f)
  then show ?case by auto
qed

lemma js_split_join:
  "fs \<noteq> [] \<Longrightarrow> list_all (\<lambda>f. c \<notin> set f) fs \<Longrightarrow> js_split c (js_join c fs) = fs"
proof (induction c fs rule: js_join.induct)
  case (1 sep)
  then show ?case by simp
next
  case (2 sep f)
  then show ?case by (simp add: js_split_no_sep)
next
  case (3 sep f g fs)
  then show ?case by (simp add: js_split_append_field)
qed

lemma js_split_has_sep: "c \<in> set s \<Longrightarrow> length (js_split c s) > 1"
proof (induction s)
  case Nil
  then show ?case by simp
next
  case (Cons x xs)
  obtain g gs where sp: "js_split c xs = g # gs"
    using js_split_nonempty [of c xs] by (cases "js_split c xs") auto
  with Cons show ?case by (cases "x = c") auto
qed

lemma padStart_idem: "padStart n c (padStart n c s) = padStart n c s"
  by (simp add: padStart_def)

lemma length_padStart: "length (padStart n c s) = max n (length s)"
  by (simp add: padStart_def)

lemma set_padStart: "set (padStart n c s) \<subseteq> insert c (set s)"
  by (auto simp add: padStart_def)

lemma js_join_Cons_nonempty: "f \<noteq> [] \<Longrightarrow> js_join c (f # fs) \<noteq> []"
  by (cases fs) auto

lemma padBlockHeight_fields:
  assumes "s \<noteq> []"
  shows "map_option (js_split CHR '','') (padBlockHeight (Some s))
           = Some (padStart 12 CHR ''0'' (hd (js_split CHR '','' s)) # tl (js_split CHR '','' s))"
proof -
  obtain h rest where sp: "js_split CHR '','' s = h # rest"
    using js_split_nonempty [of "CHR '',''" s] by (cases "js_split CHR '','' s") auto
  have "list_all (\<lambda>f. CHR '','' \<notin> set f) (h # rest)"
    using js_split_fields [of "CHR '',''" s] sp by simp
  moreover have "CHR '','' \<notin> set (padStart 12 CHR ''0'' h)" if "CHR '','' \<notin> set h"
    using that set_padStart [of 12 "CHR ''0''" h] by auto
  ultimately have "list_all (\<lambda>f. CHR '','' \<notin> set f) (padStart 12 CHR ''0'' h # rest)"
    by simp
  then have "js_split CHR '','' (js_join CHR '','' (padStart 12 CHR ''0'' h # rest))
               = padStart 12 CHR ''0'' h # rest"
    by (intro js_split_join) simp_all
  with assms sp show ?thesis by (simp add: padBlockHeight_def)
qed

lemma padBlockHeight_idem: "padBlockHeight (padBlockHeight k) = padBlockHeight k"
proof (cases k)
  case None
  then show ?thesis by (simp add: padBlockHeight_def)
next
  case (Some s)
  show ?thesis
  proof (cases "s = []")
    case True
    with Some show ?thesis by (simp add: padBlockHeight_def)
  next
    case False
    obtain h rest where sp: "js_split CHR '','' s = h # rest"
      using js_split_nonempty [of "CHR '',''" s] by (cases "js_split CHR '','' s") auto
    define r where "r = js_join CHR '','' (padStart 12 CHR ''0'' h # rest)"
    have r: "padBlockHeight (Some s) = Some r"
      using False sp by (simp add: padBlockHeight_def r_def)
    have "padStart 12 CHR ''0'' h \<noteq> []"
      using length_padStart [of 12 "CHR ''0''" h] by auto
    then have ne: "r \<noteq> []"
      unfolding r_def by (rule js_join_Cons_nonempty)
    have "js_split CHR '','' r = padStart 12 CHR ''0'' h # rest"
      using padBlockHeight_fields [OF False] r sp by simp
    then have "padBlockHeight (Some r) = Some r"
      using ne by (simp add: padBlockHeight_def padStart_idem r_def)
    with Some r show ?thesis by simp
  qed
qed

text \<open>
  C9. \<open>padBlockHeight\<close> (the specification's \<open>canonicalize\<close>) is idempotent on every
  bound, \<open>undefined\<close> and the empty string included. On a sort key, a non-empty string, it
  pads the first comma-separated field on the left with \<open>0\<close> up to 12 characters (a longer
  field stays as it is) and leaves the other fields unchanged.
\<close>

theorem padBlockHeight_pads_and_is_idempotent:
  "padBlockHeight (padBlockHeight k) = padBlockHeight k
   \<and> (s \<noteq> [] \<longrightarrow>
        map_option (js_split CHR '','') (padBlockHeight (Some s))
          = Some (padStart 12 CHR ''0'' (hd (js_split CHR '','' s)) # tl (js_split CHR '','' s)))
   \<and> padStart 12 CHR ''0'' h = replicate (12 - length h) CHR ''0'' @ h
   \<and> length (padStart 12 CHR ''0'' h) = max 12 (length h)"
  using padBlockHeight_idem [of k] padBlockHeight_fields [of s] length_padStart [of 12 "CHR ''0''" h]
  by (simp add: padStart_def)

theorem padBlockHeight_pads_and_is_idempotent_witness:
  "padBlockHeight (Some ''1257294,1694181441598,fb1e'') = Some ''000001257294,1694181441598,fb1e''
   \<and> padBlockHeight (Some ''000001257294,1694181441598,fb1e'')
       = Some ''000001257294,1694181441598,fb1e''
   \<and> map_option (js_split CHR '','') (padBlockHeight (Some ''1257294,1694181441598,fb1e''))
       = Some [''000001257294'', ''1694181441598'', ''fb1e'']"
  using padBlockHeight_pads_and_is_idempotent
          [where k = "Some ''1257294,1694181441598,fb1e''" and s = "''1257294,1694181441598,fb1e''"
             and h = "''1257294''"]
  by (simp add: padBlockHeight_def padStart_def replicate_numeral)

section \<open>Incrementing a bound that is only a block height\<close>

lemma isRadixDigit_10_iff:
  "isRadixDigit 10 c \<longleftrightarrow> 48 \<le> (of_char c :: nat) \<and> (of_char c :: nat) \<le> 57"
  by (auto simp add: isRadixDigit_def digitValue_def Let_def)

lemma decimal_digit_not_special:
  assumes "isRadixDigit 10 c"
  shows "\<not> isWhiteSpace c" "c \<noteq> CHR ''-''" "c \<noteq> CHR ''+''" "c \<noteq> CHR ''x''" "c \<noteq> CHR ''X''"
    "c \<noteq> CHR '',''"
  using assms by (auto simp add: isRadixDigit_10_iff isWhiteSpace_def)

lemma takeWhile_all: "list_all P xs \<Longrightarrow> takeWhile P xs = xs"
  by (induction xs) auto

lemma parseInt_digits:
  assumes "s \<noteq> []" and "list_all (isRadixDigit 10) s" and "radixValue 10 s < 2 ^ 53"
  shows "parseInt s = Num (int (radixValue 10 s))"
proof -
  obtain c cs where s: "s = c # cs" using assms(1) by (cases s) auto
  have c: "isRadixDigit 10 c" and cs: "list_all (isRadixDigit 10) cs"
    using assms(2) s by auto
  have S: "dropWhile isWhiteSpace s = s"
    using decimal_digit_not_special(1) [OF c] s by simp
  have sign: "take (Suc 0) s \<noteq> ''-''" "take (Suc 0) s \<noteq> ''+''"
    using decimal_digit_not_special(2,3) [OF c] s by auto
  have nohex: "take 2 s \<noteq> ''0x''" "take 2 s \<noteq> ''0X''"
    using cs s decimal_digit_not_special(4,5) by (cases cs; auto)+
  have tw: "takeWhile (isRadixDigit 10) s = s"
    using assms(2) by (rule takeWhile_all)
  show ?thesis
    unfolding parseInt_def Let_def S
    by (simp add: sign nohex tw assms(1))
qed

lemma radixValue_snoc:
  "radixValue R (xs @ [c]) = radixValue R xs * R + (case digitValue c of None \<Rightarrow> 0 | Some d \<Rightarrow> d)"
  by (simp add: radixValue_def)

lemma digitValue_digitChar: "d < 10 \<Longrightarrow> digitValue (digitChar d) = Some d"
proof -
  assume "d < 10"
  then have "d \<in> {0, 1, 2, 3, 4, 5, 6, 7, 8, 9}" by auto
  then show ?thesis by (auto simp add: digitChar_def digitValue_def)
qed

lemma radixValue_decimal: "radixValue 10 (decimal n) = n"
proof (induction n rule: decimal.induct)
  case (1 n)
  show ?case
  proof (cases "n < 10")
    case True
    then show ?thesis
      using radixValue_snoc [of 10 "[]" "digitChar n"]
      by (simp add: decimal_digit digitValue_digitChar radixValue_def)
  next
    case False
    then have "radixValue 10 (decimal (n div 10)) = n div 10" using "1" by simp
    with False show ?thesis
      by (simp add: decimal_more radixValue_snoc digitValue_digitChar)
  qed
qed

lemma decimal_digits: "list_all (isRadixDigit 10) (decimal n)"
proof (induction n rule: decimal.induct)
  case (1 n)
  have d: "isRadixDigit 10 (digitChar k)" if "k < 10" for k
    using that by (simp add: isRadixDigit_def digitValue_digitChar)
  show ?case
  proof (cases "n < 10")
    case True
    then show ?thesis by (simp add: decimal_digit d)
  next
    case False
    with "1" show ?thesis by (simp add: decimal_more d)
  qed
qed

lemma decimal_nonempty: "decimal n \<noteq> []"
  by (subst decimal.simps) simp

lemma digits_no_comma: "list_all (isRadixDigit 10) s \<Longrightarrow> CHR '','' \<notin> set s"
  using decimal_digit_not_special(6) by (induction s) auto

lemma foldl_zero_digits:
  "foldl (\<lambda>acc c. acc * 10 + (case digitValue c of None \<Rightarrow> 0 | Some d \<Rightarrow> d)) 0
     (replicate k CHR ''0'') = 0"
  by (induction k) (simp_all add: digitValue_def)

lemma radixValue_padStart: "radixValue 10 (padStart n CHR ''0'' ds) = radixValue 10 ds"
  by (simp add: radixValue_def padStart_def foldl_zero_digits)

lemma incrementHeight_height_only:
  assumes "s \<noteq> []" and "list_all (isRadixDigit 10) s" and "radixValue 10 s < 2 ^ 53"
  shows "incrementHeight (Some s) = Some (decimal (radixValue 10 s + 1))"
proof -
  have "js_split CHR '','' s = [s]"
    using digits_no_comma [OF assms(2)] by (rule js_split_no_sep)
  moreover have "nat (int (radixValue 10 s) + 1) = radixValue 10 s + 1" by simp
  ultimately show ?thesis
    using assms(1) parseInt_digits [OF assms]
    by (simp add: incrementHeight_def String_of_number_def plus_one_def)
qed

lemma padBlockHeight_one_field:
  assumes "s \<noteq> []" and "CHR '','' \<notin> set s"
  shows "padBlockHeight (Some s) = Some (padStart 12 CHR ''0'' s)"
  using assms by (simp add: padBlockHeight_def js_split_no_sep)

lemma mapBounds_to_height_only:
  assumes "s \<noteq> []" and "list_all (isRadixDigit 10) s" and "radixValue 10 s < 2 ^ 53"
  shows "mapBounds_to (Some s) = Some (padStart 12 CHR ''0'' (decimal (radixValue 10 s + 1)))"
  unfolding mapBounds_to_def incrementHeight_height_only [OF assms]
  by (rule padBlockHeight_one_field [OF decimal_nonempty digits_no_comma [OF decimal_digits]])

lemma mapBounds_to_full_key:
  assumes "CHR '','' \<in> set s"
  shows "mapBounds_to (Some s) = padBlockHeight (Some s)"
proof -
  have "s \<noteq> []" using assms by auto
  then show ?thesis
    using js_split_has_sep [OF assms]
    by (simp add: mapBounds_to_def incrementHeight_def)
qed

lemmas parse_defs = parseInt_def isWhiteSpace_def isRadixDigit_def digitValue_def radixValue_def
  String_of_number_def plus_one_def

lemma mapBounds_to_example_height:
  "mapBounds_to (Some ''1257294'') = Some ''000001257295''"
  by (simp add: mapBounds_to_def incrementHeight_def padBlockHeight_def padStart_def parse_defs
        decimal_digit decimal_more digitChar_def replicate_numeral)

lemma mapBounds_to_example_full:
  "mapBounds_to (Some ''1257294,1694181441598,fb1e'') = Some ''000001257294,1694181441598,fb1e''"
  by (simp add: mapBounds_to_def incrementHeight_def padBlockHeight_def padStart_def
        replicate_numeral)

text \<open>
  C8. The \<open>to\<close> bound of \<open>mapBounds\<close> (the specification's \<open>incrementBound\<close>). A sort
  key that is only a block height, a non-empty string of decimal digits whose value is
  below \<open>2 ^ 53\<close>, becomes the decimal numeral of the height plus one, padded on the left
  with \<open>0\<close> to 12 characters: read back as a number it is the height plus one. A sort key
  with more than one comma-separated field is only padded: its first field is padded and
  the timestamp and hash fields are the ones it had. \<open>incrementBound("1257294")\<close> is
  \<open>"000001257295"\<close>, and a full key keeps its fields.
\<close>

theorem mapBounds_to_increments_height_only:
  "(s \<noteq> [] \<and> list_all (isRadixDigit 10) s \<and> radixValue 10 s < 2 ^ 53 \<longrightarrow>
      mapBounds_to (Some s) = Some (padStart 12 CHR ''0'' (decimal (radixValue 10 s + 1)))
      \<and> map_option (radixValue 10) (mapBounds_to (Some s)) = Some (radixValue 10 s + 1))
   \<and> (CHR '','' \<in> set k \<longrightarrow>
        mapBounds_to (Some k) = padBlockHeight (Some k)
        \<and> map_option (js_split CHR '','') (mapBounds_to (Some k))
            = Some (padStart 12 CHR ''0'' (hd (js_split CHR '','' k)) # tl (js_split CHR '','' k)))
   \<and> mapBounds_to (Some ''1257294'') = Some ''000001257295''
   \<and> mapBounds_to (Some ''1257294,1694181441598,fb1e'')
       = Some ''000001257294,1694181441598,fb1e''"
proof -
  have height: "mapBounds_to (Some s) = Some (padStart 12 CHR ''0'' (decimal (radixValue 10 s + 1)))
      \<and> map_option (radixValue 10) (mapBounds_to (Some s)) = Some (radixValue 10 s + 1)"
    if "s \<noteq> []" "list_all (isRadixDigit 10) s" "radixValue 10 s < 2 ^ 53"
    using mapBounds_to_height_only [OF that]
    by (simp add: radixValue_padStart radixValue_decimal)
  have full: "mapBounds_to (Some k) = padBlockHeight (Some k)
      \<and> map_option (js_split CHR '','') (mapBounds_to (Some k))
          = Some (padStart 12 CHR ''0'' (hd (js_split CHR '','' k)) # tl (js_split CHR '','' k))"
    if "CHR '','' \<in> set k"
  proof -
    have "k \<noteq> []" using that by auto
    then show ?thesis
      using mapBounds_to_full_key [OF that] padBlockHeight_fields [of k] by simp
  qed
  show ?thesis
    using height full mapBounds_to_example_height mapBounds_to_example_full by blast
qed

theorem mapBounds_to_increments_height_only_witness:
  "mapBounds_to (Some ''999'') = Some ''000000001000''
   \<and> map_option (radixValue 10) (mapBounds_to (Some ''999'')) = Some 1000
   \<and> mapBounds_to (Some ''42,7,ab'') = Some ''000000000042,7,ab''
   \<and> map_option (js_split CHR '','') (mapBounds_to (Some ''42,7,ab''))
       = Some [''000000000042'', ''7'', ''ab'']"
proof -
  have digits: "''999'' \<noteq> [] \<and> list_all (isRadixDigit 10) ''999'' \<and> radixValue 10 ''999'' < 2 ^ 53"
    by (simp add: isRadixDigit_def digitValue_def radixValue_def)
  have comma: "CHR '','' \<in> set ''42,7,ab''" by simp
  have pad: "padBlockHeight (Some ''42,7,ab'') = Some ''000000000042,7,ab''"
    by (simp add: padBlockHeight_def padStart_def replicate_numeral)
  show ?thesis
    using mapBounds_to_increments_height_only [where s = "''999''" and k = "''42,7,ab''"]
      digits comma
    by (simp add: pad padStart_def decimal_digit decimal_more digitChar_def replicate_numeral
          radixValue_def digitValue_def)
qed

section \<open>The deep hash is attached to the messages with Forwarded-By\<close>

lemma maybeMessageId_all_computed:
  "list_all (\<lambda>cur. truthy (Forwarded_By (message cur)) \<longrightarrow> \<not> isl (calc (deepHashArgs cur))) msgs
   \<Longrightarrow> maybeMessageId calc msgs
       = (map (\<lambda>cur. if truthy (Forwarded_By (message cur))
                      then cur\<lparr>deepHash := Some (projr (calc (deepHashArgs cur)))\<rparr>
                      else cur) msgs, None)"
proof (induction msgs)
  case Nil
  then show ?case by simp
next
  case (Cons cur msgs)
  then show ?case
    by (cases "calc (deepHashArgs cur)") auto
qed

lemma maybeMessageId_fails_at:
  assumes "list_all (\<lambda>cur. truthy (Forwarded_By (message cur)) \<longrightarrow> \<not> isl (calc (deepHashArgs cur))) pre"
    and "truthy (Forwarded_By (message m))"
    and "calc (deepHashArgs m) = Inl err"
  shows "maybeMessageId calc (pre @ m # post) = (fst (maybeMessageId calc pre), Some err)"
  using assms(1)
proof (induction pre)
  case Nil
  then show ?case using assms(2,3) by simp
next
  case (Cons cur pre)
  then show ?case
    by (cases "calc (deepHashArgs cur)") (auto split: prod.splits)
qed

text \<open>
  C4, as the code has it. The deep hash is computed and attached for exactly the messages
  whose \<open>Forwarded-By\<close> is set (and not empty); \<open>Forwarded-For\<close> is not looked at. When
  every computation succeeds, the stream yields one element per incoming element, in
  order: the element with its \<open>deepHash\<close> set when \<open>Forwarded-By\<close> is set, and the
  unchanged element otherwise. When the computation fails for a message, the stream has
  yielded what the elements before it gave, and then fails with that error: the message is
  not skipped and nothing after it is yielded.
\<close>

theorem maybeMessageId_hashes_forwarded_by:
  "(list_all (\<lambda>cur. truthy (Forwarded_By (message cur)) \<longrightarrow> \<not> isl (calc (deepHashArgs cur))) msgs
      \<longrightarrow> maybeMessageId calc msgs
           = (map (\<lambda>cur. if truthy (Forwarded_By (message cur))
                          then cur\<lparr>deepHash := Some (projr (calc (deepHashArgs cur)))\<rparr>
                          else cur) msgs, None))
   \<and> (list_all (\<lambda>cur. truthy (Forwarded_By (message cur)) \<longrightarrow> \<not> isl (calc (deepHashArgs cur))) pre
        \<and> truthy (Forwarded_By (message m)) \<and> calc (deepHashArgs m) = Inl err
      \<longrightarrow> maybeMessageId calc (pre @ m # post) = (fst (maybeMessageId calc pre), Some err))"
  using maybeMessageId_all_computed [of calc msgs] maybeMessageId_fails_at [of calc pre m err post]
  by blast

lemmas hydrate_samples = item_only_for_def item_only_by_def item_ill_formed_def plain_message_def
  sample_hash_def deepHashArgs_def truthy_def

theorem maybeMessageId_hashes_forwarded_by_witness:
  "maybeMessageId sample_hash [item_only_for, item_only_by]
     = ([item_only_for, item_only_by\<lparr>deepHash := Some ''hash-of-data''\<rparr>], None)
   \<and> maybeMessageId sample_hash ([item_only_for, item_only_by] @ item_ill_formed # [item_only_by])
     = ([item_only_for, item_only_by\<lparr>deepHash := Some ''hash-of-data''\<rparr>], Some ''ill-formed'')"
proof -
  have ok: "list_all (\<lambda>cur. truthy (Forwarded_By (message cur))
              \<longrightarrow> \<not> isl (sample_hash (deepHashArgs cur))) [item_only_for, item_only_by]"
    by (simp add: hydrate_samples)
  have bad: "truthy (Forwarded_By (message item_ill_formed))
               \<and> sample_hash (deepHashArgs item_ill_formed) = Inl ''ill-formed''"
    by (simp add: hydrate_samples)
  have out: "map (\<lambda>cur. if truthy (Forwarded_By (message cur))
                   then cur\<lparr>deepHash := Some (projr (sample_hash (deepHashArgs cur)))\<rparr>
                   else cur) [item_only_for, item_only_by]
             = [item_only_for, item_only_by\<lparr>deepHash := Some ''hash-of-data''\<rparr>]"
    by (simp add: hydrate_samples)
  show ?thesis
    using maybeMessageId_hashes_forwarded_by
            [where calc = sample_hash and msgs = "[item_only_for, item_only_by]"
               and pre = "[item_only_for, item_only_by]" and m = item_ill_formed
               and err = "''ill-formed''" and post = "[item_only_by]"]
          ok bad
    unfolding out by simp
qed

text \<open>
  C4 as the specification's data model states it, with \<open>Forwarded-For\<close>, fails in
  both directions: a message with \<open>Forwarded-For\<close> and no \<open>Forwarded-By\<close> is yielded
  without a deep hash, and a message with \<open>Forwarded-By\<close> and no \<open>Forwarded-For\<close> gets
  one.
\<close>

theorem maybeMessageId_forwarded_for_counterexample:
  "Forwarded_For (message item_only_for) = Some ''process-1''
   \<and> maybeMessageId sample_hash [item_only_for] = ([item_only_for], None)
   \<and> deepHash item_only_for = None
   \<and> Forwarded_For (message item_only_by) = None
   \<and> map deepHash (fst (maybeMessageId sample_hash [item_only_by])) = [Some ''hash-of-data'']"
  by (simp add: hydrate_samples)

section \<open>The first Checkpoint of the gateway's answer is taken unchecked\<close>

lemma determineLatestCheckpointBefore_single:
  "determineLatestCheckpointBefore r [node] = Some (toCheckpoint node)"
  by (simp add: determineLatestCheckpointBefore_def latestCheckpointReducer_def)

text \<open>
  C5. The gateway returns one Checkpoint, taken at timestamp 20; the request is for the
  memory before timestamp 10, and nothing is cached. The Checkpoint is later than the
  requested position, so no Checkpoint that is not later exists. The reducer returns the
  Checkpoint all the same, because the first Checkpoint it meets is not compared with
  the request, and the call resolves to the memory at timestamp 20 instead of a cold
  start.
\<close>

theorem findProcessMemoryBefore_takes_later_checkpoint:
  "isLaterThan (request_position request_at_10) (toCheckpoint node_at_20)
   \<and> determineLatestCheckpointBefore request_at_10 [node_at_20] = Some (toCheckpoint node_at_20)
   \<and> findProcessMemoryBefore sample_deps Map.empty ''^'' request_at_10
       = \<lparr>timestamp = Some ''20'', ordinate = Some ''5'', cron = None,
          found_Memory = Some ''memory-at-20'', found_blockHeight = Some (HeightString ''100'')\<rparr>
   \<and> findProcessMemoryBefore sample_deps Map.empty ''^'' request_at_10
       \<noteq> coldStart ''^'' (RejectedRequest request_at_10)"
  by (simp add: findProcessMemoryBefore_def maybeCached_def maybeCheckpointFromArweave_def
        determineLatestCheckpointBefore_def latestCheckpointReducer_def decodeData_def
        coldStart_def rejected_fields_def request_position_def toCheckpoint_def
        pluckTagValue_def truthy_def isLaterThan_def js_gt_def orEmpty_def
        node_at_20_def sample_deps_def request_at_10_def)

section \<open>Publishing is a no-op for a published Checkpoint\<close>

lemma saveCheckpoint_published:
  assumes "sc_address deps = Inr owner"
    and "sc_queryGateway deps (checkpoint_query_of owner a) = Inr (checkpoint # others)"
  shows "saveCheckpoint deps a = ([GetAddress, QueryGateway (checkpoint_query_of owner a)], Inr ())"
  using assms by (simp add: saveCheckpoint_def)

lemma saveCheckpoint_signs_only_unpublished:
  assumes "BuildAndSignDataItem item \<in> set (fst (saveCheckpoint deps a))
           \<or> UploadDataItem raw \<in> set (fst (saveCheckpoint deps a))"
  shows "\<exists>owner. sc_address deps = Inr owner
           \<and> sc_queryGateway deps (checkpoint_query_of owner a) = Inr []
           \<and> take 2 (fst (saveCheckpoint deps a))
               = [GetAddress, QueryGateway (checkpoint_query_of owner a)]"
proof (cases "sc_address deps")
  case (Inl err)
  with assms show ?thesis by (simp add: saveCheckpoint_def)
next
  case (Inr owner)
  show ?thesis
  proof (cases "sc_queryGateway deps (checkpoint_query_of owner a)")
    case (Inl err)
    with Inr assms show ?thesis by (simp add: saveCheckpoint_def)
  next
    case found: (Inr edges)
    show ?thesis
    proof (cases edges)
      case Nil
      with Inr found show ?thesis
        by (simp add: saveCheckpoint_def Let_def split: sum.split)
    next
      case (Cons checkpoint others)
      with Inr found assms show ?thesis by (simp add: saveCheckpoint_def)
    qed
  qed
qed

text \<open>
  C6. \<open>saveCheckpoint\<close> asks for the address and then queries the gateway with
  \<open>(owner, processId, nonce, timestamp, cron)\<close>, the filter on the cron being part of the
  query exactly when a cron is present. When the gateway answers with a Checkpoint, these
  two calls are all it makes, and it resolves: nothing is hashed, signed or uploaded.
  Whenever it does sign or upload, the gateway was asked first and answered with no
  Checkpoint.
\<close>

theorem saveCheckpoint_is_idempotent:
  "(sc_address deps = Inr owner
      \<and> sc_queryGateway deps
           \<lparr>q_owner = owner, q_processId = ca_processId a, q_nonce = ca_nonce a,
            q_timestamp = ca_timestamp a, q_cron = ca_cron a, q_withCron = truthy (ca_cron a)\<rparr>
          = Inr (checkpoint # others)
      \<longrightarrow> saveCheckpoint deps a
           = ([GetAddress,
               QueryGateway
                 \<lparr>q_owner = owner, q_processId = ca_processId a, q_nonce = ca_nonce a,
                  q_timestamp = ca_timestamp a, q_cron = ca_cron a,
                  q_withCron = truthy (ca_cron a)\<rparr>],
              Inr ()))
   \<and> (BuildAndSignDataItem item \<in> set (fst (saveCheckpoint deps a))
        \<or> UploadDataItem raw \<in> set (fst (saveCheckpoint deps a))
      \<longrightarrow> (\<exists>self. sc_address deps = Inr self
             \<and> sc_queryGateway deps (checkpoint_query_of self a) = Inr []
             \<and> take 2 (fst (saveCheckpoint deps a))
                 = [GetAddress, QueryGateway (checkpoint_query_of self a)]))"
  using saveCheckpoint_published [of deps owner a checkpoint others]
    saveCheckpoint_signs_only_unpublished [of item deps a raw]
  unfolding checkpoint_query_of_def by blast

theorem saveCheckpoint_is_idempotent_witness:
  "saveCheckpoint (sample_checkpoint_deps [node_at_20]) sample_checkpoint_args
     = ([GetAddress,
         QueryGateway \<lparr>q_owner = ''cu'', q_processId = ''p'', q_nonce = ''5'',
                       q_timestamp = ''20'', q_cron = None, q_withCron = False\<rparr>],
        Inr ())
   \<and> UploadDataItem ''signed'' \<in> set (fst (saveCheckpoint (sample_checkpoint_deps []) sample_checkpoint_args))
   \<and> sc_queryGateway (sample_checkpoint_deps [])
        (checkpoint_query_of ''cu'' sample_checkpoint_args) = Inr []"
proof -
  have published: "sc_address (sample_checkpoint_deps [node_at_20]) = Inr ''cu''
      \<and> sc_queryGateway (sample_checkpoint_deps [node_at_20])
           \<lparr>q_owner = ''cu'', q_processId = ca_processId sample_checkpoint_args,
            q_nonce = ca_nonce sample_checkpoint_args,
            q_timestamp = ca_timestamp sample_checkpoint_args,
            q_cron = ca_cron sample_checkpoint_args,
            q_withCron = truthy (ca_cron sample_checkpoint_args)\<rparr>
          = Inr (node_at_20 # [])"
    by (simp add: sample_checkpoint_deps_def)
  have uploaded: "UploadDataItem ''signed''
      \<in> set (fst (saveCheckpoint (sample_checkpoint_deps []) sample_checkpoint_args))"
    by (simp add: saveCheckpoint_def sample_checkpoint_deps_def Let_def)
  have self: "sc_address (sample_checkpoint_deps []) = Inr ''cu''"
    by (simp add: sample_checkpoint_deps_def)
  show ?thesis
    using saveCheckpoint_is_idempotent
            [where deps = "sample_checkpoint_deps [node_at_20]" and owner = "''cu''"
               and a = sample_checkpoint_args and checkpoint = node_at_20 and others = "[]"]
          saveCheckpoint_is_idempotent
            [where deps = "sample_checkpoint_deps []" and a = sample_checkpoint_args
               and raw = "''signed''"]
          published uploaded self
    by (auto simp add: sample_checkpoint_args_def truthy_def)
qed

section \<open>writeMessage drops the promise of its request\<close>

lemma writeMessage_always_rejects:
  "snd (writeMessage fetch fromBase64 url data) = Inl TypeError_of_undefined"
  by (simp add: writeMessage_def forwardToSU_def fromPromise_def Let_def)

text \<open>
  C2. The SU answers the POST with status 200 and a JSON body. The request is sent to
  \<open>{SEQUENCER_URL}/message\<close> with \<open>Content-Type: application/octet-stream\<close>, and the
  promise of \<open>writeMessage\<close> is rejected with a \<open>TypeError\<close> instead of resolving with
  the parsed body. For an SU that answers with status 400 the rejection is the same
  \<open>TypeError\<close>: it carries neither the status nor the body text.
\<close>

theorem writeMessage_rejects_on_success_response:
  "writeMessage accepting_su (\<lambda>d. d) ''https://su'' ''signed-data-item''
     = ([\<lparr>req_url = ''https://su/message'', req_method = ''POST'',
          req_headers = [(''Content-Type'', ''application/octet-stream''),
                         (''Accept'', ''application/json'')],
          req_body = ''signed-data-item''\<rparr>],
        Inl TypeError_of_undefined)
   \<and> accepting_su \<lparr>req_url = ''https://su/message'', req_method = ''POST'',
          req_headers = [(''Content-Type'', ''application/octet-stream''),
                         (''Accept'', ''application/json'')],
          req_body = ''signed-data-item''\<rparr>
       = Inr \<lparr>resp_ok = True, resp_status = 200, resp_text = ''{ id: tx-1 }'',
              resp_json = Some ''tx-1''\<rparr>
   \<and> snd (writeMessage rejecting_su (\<lambda>d. d) ''https://su'' ''signed-data-item'')
       = Inl TypeError_of_undefined"
  by (simp add: writeMessage_def forwardToSU_def fromPromise_def Let_def accepting_su_def)

section \<open>The message source reads one page\<close>

lemmas interactions_samples = loadInteractions_def su_with_pages_def toInteraction_def
  tagsInput_def interaction_at_def sample_ctx_def interactions_url_def template_def
  mapBounds_def mapBounds_to_def incrementHeight_def padBlockHeight_def padStart_def
  parse_defs decimal_digit decimal_more digitChar_def replicate_numeral Let_def

lemma loadInteractions_one_descending_page:
  "loadInteractions (su_with_pages [[interaction_at 3, interaction_at 2], []])
     Some (\<lambda>i. True) ''https://su'' sample_ctx
   = ([''https://su/gateway/v2/interactions-sort-key?contractId=p&from=000000000001&to=000000000010''],
      Inr [\<lparr>sortKey = ''000000000002,1694181441598,tx'', action = ''{}''\<rparr>,
           \<lparr>sortKey = ''000000000003,1694181441598,tx'', action = ''{}''\<rparr>])"
  by (simp add: interactions_samples)

text \<open>
  C3. The SU holds four interactions of the process between the bounds 1 and 9, at the
  block heights 5, 4, 3 and 2, in two descending pages followed by an empty page. The
  source makes one request, which names the contract and the two mapped bounds and no
  page, and yields the two interactions of the first page, in ascending order; the
  interactions at the heights 3 and 2 are never fetched.
\<close>

theorem loadInteractions_reads_first_page_only:
  "loadInteractions
     (su_with_pages [[interaction_at 5, interaction_at 4], [interaction_at 3, interaction_at 2], []])
     Some (\<lambda>i. True) ''https://su'' sample_ctx
   = ([''https://su/gateway/v2/interactions-sort-key?contractId=p&from=000000000001&to=000000000010''],
      Inr [\<lparr>sortKey = ''000000000004,1694181441598,tx'', action = ''{}''\<rparr>,
           \<lparr>sortKey = ''000000000005,1694181441598,tx'', action = ''{}''\<rparr>])
   \<and> map ri_sortKey
        (concat [[interaction_at 5, interaction_at 4], [interaction_at 3, interaction_at 2], []])
       = [''000000000005,1694181441598,tx'', ''000000000004,1694181441598,tx'',
          ''000000000003,1694181441598,tx'', ''000000000002,1694181441598,tx'']"
  by (simp add: interactions_samples)

section \<open>A monitor run advances lastFromSortKey only after the batch is saved and cranked\<close>

lemma firstRejection_None_iff:
  "firstRejection results = None \<longleftrightarrow> list_all (\<lambda>r. \<not> isl r) results"
proof (cases "filter isl results")
  case Nil
  then have "list_all (\<lambda>r. \<not> isl r) results"
    by (simp add: filter_empty_conv list_all_iff)
  with Nil show ?thesis by (simp add: firstRejection_def)
next
  case (Cons r rs)
  then have "r \<in> set (filter isl results)" by simp
  then have r: "isl r" "r \<in> set results" by auto
  then have "\<not> list_all (\<lambda>r. \<not> isl r) results" by (auto simp add: list_all_iff)
  moreover have "firstRejection results \<noteq> None"
    using Cons r(1) by (cases r) (simp_all add: firstRejection_def)
  ultimately show ?thesis by simp
qed

lemma processBatch_update:
  assumes "processBatch deps m scheduled = (events, m', outcome)"
    and "m' \<noteq> m \<or> UpdateMonitor x \<in> set events"
  shows "list_all (\<lambda>doc. \<not> isl (mu_saveMsg deps doc)) (batchDocuments deps scheduled)
         \<and> (\<exists>dbMsgs res.
               mu_findLatestMsgs deps (batchTxId deps) = Inr dbMsgs
               \<and> mu_crankMsgs deps dbMsgs = Inr res
               \<and> m' = m\<lparr>lastFromSortKey := scheduledSortKey (last scheduled)\<rparr>
               \<and> events = map SaveMsg (batchDocuments deps scheduled)
                            @ [FindLatestMsgs (batchTxId deps), CrankMsgs dbMsgs, UpdateMonitor m'])"
proof (cases "firstRejection (map (mu_saveMsg deps) (batchDocuments deps scheduled))")
  case (Some err)
  with assms show ?thesis by (auto simp add: processBatch_def Let_def)
next
  case None
  then have saved: "list_all (\<lambda>doc. \<not> isl (mu_saveMsg deps doc)) (batchDocuments deps scheduled)"
    by (simp add: firstRejection_None_iff list_all_iff)
  show ?thesis
  proof (cases "mu_findLatestMsgs deps (batchTxId deps)")
    case (Inl err)
    with None assms show ?thesis by (auto simp add: processBatch_def Let_def)
  next
    case found: (Inr dbMsgs)
    show ?thesis
    proof (cases "mu_crankMsgs deps dbMsgs")
      case (Inl err)
      with None found assms show ?thesis by (auto simp add: processBatch_def Let_def)
    next
      case (Inr res)
      with None found assms(1) saved show ?thesis
        by (auto simp add: processBatch_def Let_def split: sum.splits)
    qed
  qed
qed

lemma processMonitor_nothing_scheduled:
  assumes "fetchScheduled deps CU_URL m = None \<or> fetchScheduled deps CU_URL m = Some (JsonArray [])"
  shows "processMonitor deps CU_URL m = ([FetchScheduled (scheduledUrl CU_URL m)], m, ReturnedEmpty)"
  using assms by (auto simp add: processMonitor_def Let_def)

lemma processMonitor_update:
  assumes "processMonitor deps CU_URL m = (events, m', outcome)"
    and "m' \<noteq> m \<or> UpdateMonitor x \<in> set events"
  shows "\<exists>scheduled dbMsgs res.
           fetchScheduled deps CU_URL m = Some (JsonArray scheduled) \<and> scheduled \<noteq> []
           \<and> list_all (\<lambda>doc. \<not> isl (mu_saveMsg deps doc)) (batchDocuments deps scheduled)
           \<and> mu_findLatestMsgs deps (batchTxId deps) = Inr dbMsgs
           \<and> mu_crankMsgs deps dbMsgs = Inr res
           \<and> m' = m\<lparr>lastFromSortKey := scheduledSortKey (last scheduled)\<rparr>
           \<and> events = FetchScheduled (scheduledUrl CU_URL m)
                        # map SaveMsg (batchDocuments deps scheduled)
                        @ [FindLatestMsgs (batchTxId deps), CrankMsgs dbMsgs, UpdateMonitor m']"
proof (cases "fetchScheduled deps CU_URL m")
  case None
  with assms show ?thesis by (auto simp add: processMonitor_def Let_def)
next
  case (Some json)
  show ?thesis
  proof (cases json)
    case JsonFalsy
    with Some assms show ?thesis by (auto simp add: processMonitor_def Let_def)
  next
    case (JsonNotArray lengthBelowOne)
    with Some assms show ?thesis by (auto simp add: processMonitor_def Let_def split: if_splits)
  next
    case (JsonArray scheduled)
    show ?thesis
    proof (cases "scheduled = []")
      case True
      with Some JsonArray assms show ?thesis by (auto simp add: processMonitor_def Let_def)
    next
      case False
      obtain evs where batch: "processBatch deps m scheduled = (evs, m', outcome)"
        and events: "events = FetchScheduled (scheduledUrl CU_URL m) # evs"
        using Some JsonArray False assms(1)
        by (auto simp add: processMonitor_def Let_def split: prod.splits)
      have "m' \<noteq> m \<or> UpdateMonitor x \<in> set evs"
        using assms(2) events by auto
      from processBatch_update [OF batch this] Some JsonArray False events
      show ?thesis by auto
    qed
  qed
qed

lemma batchDocuments_explicit:
  "batchDocuments deps scheduled
     = map (\<lambda>k. \<lparr>sm_id = mu_random deps (Suc k),
                   sm_fromTxId = ''scheduled-'' @ mu_random deps 0,
                   sm_msg = msg_rest (scheduled ! k), sm_cachedAt = mu_now deps k\<rparr>)
           [0..<length scheduled]"
  by (rule nth_equalityI) (simp_all add: batchDocuments_def batchTxId_def enumerate_eq_zip)

lemma fetchScheduled_failed:
  "mu_fetch deps (scheduledUrl CU_URL m) = Inl err \<Longrightarrow> fetchScheduled deps CU_URL m = None"
  by (simp add: fetchScheduled_def)

lemma fetchScheduled_Some:
  "fetchScheduled deps CU_URL m = Some json \<Longrightarrow> mu_fetch deps (scheduledUrl CU_URL m) = Inr json"
  by (auto simp add: fetchScheduled_def split: sum.splits)

lemma processMonitor_update_explicit:
  assumes "processMonitor deps CU_URL m = (events, m', outcome)"
    and "m' \<noteq> m \<or> UpdateMonitor x \<in> set events"
  shows "\<exists>scheduled docs dbMsgs res.
           mu_fetch deps (scheduledUrl CU_URL m) = Inr (JsonArray scheduled) \<and> scheduled \<noteq> []
           \<and> docs = map (\<lambda>k. \<lparr>sm_id = mu_random deps (Suc k),
                                sm_fromTxId = ''scheduled-'' @ mu_random deps 0,
                                sm_msg = msg_rest (scheduled ! k), sm_cachedAt = mu_now deps k\<rparr>)
                        [0..<length scheduled]
           \<and> list_all (\<lambda>doc. \<not> isl (mu_saveMsg deps doc)) docs
           \<and> mu_findLatestMsgs deps (''scheduled-'' @ mu_random deps 0) = Inr dbMsgs
           \<and> mu_crankMsgs deps dbMsgs = Inr res
           \<and> m' = m\<lparr>lastFromSortKey := scheduledSortKey (last scheduled)\<rparr>
           \<and> events = FetchScheduled (scheduledUrl CU_URL m)
                        # map SaveMsg docs
                        @ [FindLatestMsgs (''scheduled-'' @ mu_random deps 0),
                           CrankMsgs dbMsgs, UpdateMonitor m']"
proof -
  obtain scheduled dbMsgs res where run:
    "fetchScheduled deps CU_URL m = Some (JsonArray scheduled)" "scheduled \<noteq> []"
    "list_all (\<lambda>doc. \<not> isl (mu_saveMsg deps doc)) (batchDocuments deps scheduled)"
    "mu_findLatestMsgs deps (batchTxId deps) = Inr dbMsgs"
    "mu_crankMsgs deps dbMsgs = Inr res"
    "m' = m\<lparr>lastFromSortKey := scheduledSortKey (last scheduled)\<rparr>"
    "events = FetchScheduled (scheduledUrl CU_URL m)
                # map SaveMsg (batchDocuments deps scheduled)
                @ [FindLatestMsgs (batchTxId deps), CrankMsgs dbMsgs, UpdateMonitor m']"
    using processMonitor_update [OF assms] by blast
  have tx: "batchTxId deps = ''scheduled-'' @ mu_random deps 0"
    by (simp add: batchTxId_def)
  show ?thesis
    using run fetchScheduled_Some [OF run(1)]
    unfolding batchDocuments_explicit tx by blast
qed

text \<open>
  C10. When the request for the scheduled messages fails, \<open>fetchScheduled\<close> returns
  nothing. When it returns nothing or an empty batch, the run makes no call but the
  request: no message is saved, the cranker is not invoked, the monitor is unchanged and
  not persisted, and the run returns \<open>[]\<close>. In every run, if the monitor object is
  changed or \<open>updateMonitor\<close> is called, then a non-empty batch was fetched; for each
  message of the batch, in order, a document holding that message without its
  \<open>scheduledSortKey\<close> was handed to \<open>saveMsg\<close> under the one batch id, and every one of
  these saves resolved; the saved messages were then found under the batch id and the
  crank of them resolved; all this before the update. The monitor persisted is the
  monitor with \<open>lastFromSortKey\<close> set to the \<open>scheduledSortKey\<close> of the last message of
  the batch.
\<close>

theorem processMonitor_advances_after_crank:
  "(mu_fetch deps (scheduledUrl CU_URL m) = Inl err \<longrightarrow> fetchScheduled deps CU_URL m = None)
   \<and> (fetchScheduled deps CU_URL m = None \<or> fetchScheduled deps CU_URL m = Some (JsonArray [])
      \<longrightarrow> processMonitor deps CU_URL m = ([FetchScheduled (scheduledUrl CU_URL m)], m, ReturnedEmpty))
   \<and> (processMonitor deps CU_URL m = (events, m', outcome)
        \<and> (m' \<noteq> m \<or> UpdateMonitor x \<in> set events)
      \<longrightarrow> (\<exists>scheduled docs dbMsgs res.
             mu_fetch deps (scheduledUrl CU_URL m) = Inr (JsonArray scheduled) \<and> scheduled \<noteq> []
             \<and> docs = map (\<lambda>k. \<lparr>sm_id = mu_random deps (Suc k),
                                  sm_fromTxId = ''scheduled-'' @ mu_random deps 0,
                                  sm_msg = msg_rest (scheduled ! k),
                                  sm_cachedAt = mu_now deps k\<rparr>)
                          [0..<length scheduled]
             \<and> list_all (\<lambda>doc. \<not> isl (mu_saveMsg deps doc)) docs
             \<and> mu_findLatestMsgs deps (''scheduled-'' @ mu_random deps 0) = Inr dbMsgs
             \<and> mu_crankMsgs deps dbMsgs = Inr res
             \<and> m' = m\<lparr>lastFromSortKey := scheduledSortKey (last scheduled)\<rparr>
             \<and> events = FetchScheduled (scheduledUrl CU_URL m)
                          # map SaveMsg docs
                          @ [FindLatestMsgs (''scheduled-'' @ mu_random deps 0),
                             CrankMsgs dbMsgs, UpdateMonitor m']))"
  using fetchScheduled_failed [of deps CU_URL m err]
    processMonitor_nothing_scheduled [of deps CU_URL m]
    processMonitor_update_explicit [of deps CU_URL m events m' outcome x]
  by blast

lemmas monitor_samples = sample_monitor_deps_def sample_monitor_def sample_batch_def
  fetchScheduled_def scheduledUrl_def

theorem processMonitor_advances_after_crank_witness:
  "processMonitor ((sample_monitor_deps JsonFalsy)\<lparr>mu_fetch := (\<lambda>url. Inl ''unreachable'')\<rparr>)
       ''https://cu'' sample_monitor
     = ([FetchScheduled ''https://cu/scheduled/p?from=k0''], sample_monitor, ReturnedEmpty)
   \<and> processMonitor (sample_monitor_deps (JsonArray [])) ''https://cu'' sample_monitor
     = ([FetchScheduled ''https://cu/scheduled/p?from=k0''], sample_monitor, ReturnedEmpty)
   \<and> processMonitor (sample_monitor_deps (JsonArray sample_batch)) ''https://cu'' sample_monitor
     = ([FetchScheduled ''https://cu/scheduled/p?from=k0'',
         SaveMsg \<lparr>sm_id = ''8'', sm_fromTxId = ''scheduled-7'', sm_msg = ''first'', sm_cachedAt = 1000\<rparr>,
         SaveMsg \<lparr>sm_id = ''9'', sm_fromTxId = ''scheduled-7'', sm_msg = ''second'', sm_cachedAt = 1001\<rparr>,
         FindLatestMsgs ''scheduled-7'',
         CrankMsgs [''first'', ''second''],
         UpdateMonitor (sample_monitor\<lparr>lastFromSortKey := Some ''k2''\<rparr>)],
        sample_monitor\<lparr>lastFromSortKey := Some ''k2''\<rparr>, ReturnedOk)
   \<and> map msg_rest sample_batch = [''first'', ''second'']
   \<and> scheduledSortKey (last sample_batch) = Some ''k2''"
proof -
  let ?down = "(sample_monitor_deps JsonFalsy)\<lparr>mu_fetch := (\<lambda>url. Inl ''unreachable'')\<rparr>"
  let ?none = "sample_monitor_deps (JsonArray [])"
  let ?full = "sample_monitor_deps (JsonArray sample_batch)"
  let ?m' = "sample_monitor\<lparr>lastFromSortKey := Some ''k2''\<rparr>"
  have url: "scheduledUrl ''https://cu'' sample_monitor = ''https://cu/scheduled/p?from=k0''"
    by (simp add: monitor_samples)
  have down: "mu_fetch ?down (scheduledUrl ''https://cu'' sample_monitor) = Inl ''unreachable''"
    by simp
  have empty: "fetchScheduled ?none ''https://cu'' sample_monitor = Some (JsonArray [])"
    by (simp add: monitor_samples)
  obtain events m' outcome where
    run: "processMonitor ?full ''https://cu'' sample_monitor = (events, m', outcome)"
    by (metis prod_cases3)
  have m': "m' = ?m'" and outcome: "outcome = ReturnedOk"
    using run
    by (simp_all add: processMonitor_def processBatch_def batchDocuments_def batchTxId_def
          firstRejection_def Let_def monitor_samples enumerate_eq_zip)
  have changed: "m' \<noteq> sample_monitor"
    unfolding m' by (simp add: sample_monitor_def)
  have fetched: "mu_fetch ?full (scheduledUrl ''https://cu'' sample_monitor) = Inr (JsonArray sample_batch)"
    by (simp add: sample_monitor_deps_def)
  have saves: "mu_findLatestMsgs ?full k = Inr [''first'', ''second'']" for k
    by (simp add: sample_monitor_deps_def)
  have rnd: "mu_random ?full 0 = ''7''" "mu_random ?full (Suc 0) = ''8''"
    "mu_random ?full (Suc (Suc 0)) = ''9''" "mu_now ?full k = 1000 + k" for k
    by (simp_all add: sample_monitor_deps_def)
  have batch: "length sample_batch = 2" "sample_batch ! 0 = \<lparr>scheduledSortKey = Some ''k1'', msg_rest = ''first''\<rparr>"
    "sample_batch ! Suc 0 = \<lparr>scheduledSortKey = Some ''k2'', msg_rest = ''second''\<rparr>"
    "last sample_batch = \<lparr>scheduledSortKey = Some ''k2'', msg_rest = ''second''\<rparr>"
    by (simp_all add: sample_batch_def)
  have upt: "[0..<2] = [0, Suc 0]" by (simp add: upt_rec)
  have full: "events = [FetchScheduled ''https://cu/scheduled/p?from=k0'',
         SaveMsg \<lparr>sm_id = ''8'', sm_fromTxId = ''scheduled-7'', sm_msg = ''first'', sm_cachedAt = 1000\<rparr>,
         SaveMsg \<lparr>sm_id = ''9'', sm_fromTxId = ''scheduled-7'', sm_msg = ''second'', sm_cachedAt = 1001\<rparr>,
         FindLatestMsgs ''scheduled-7'',
         CrankMsgs [''first'', ''second''],
         UpdateMonitor ?m']"
    using processMonitor_advances_after_crank
            [where deps = ?full and CU_URL = "''https://cu''" and m = sample_monitor
               and events = events and m' = m' and outcome = outcome]
          run changed fetched
    by (auto simp add: url saves rnd batch upt m')
  have first: "processMonitor ?down ''https://cu'' sample_monitor
                 = ([FetchScheduled ''https://cu/scheduled/p?from=k0''], sample_monitor, ReturnedEmpty)"
    using processMonitor_advances_after_crank
            [where deps = ?down and CU_URL = "''https://cu''" and m = sample_monitor
               and err = "''unreachable''"]
          down
    by (simp add: url)
  have second: "processMonitor ?none ''https://cu'' sample_monitor
                 = ([FetchScheduled ''https://cu/scheduled/p?from=k0''], sample_monitor, ReturnedEmpty)"
    using processMonitor_advances_after_crank
            [where deps = ?none and CU_URL = "''https://cu''" and m = sample_monitor]
          empty
    by (simp add: url)
  show ?thesis
    using first second run full m' outcome by (simp add: batch sample_batch_def)
qed

end
